(* ===== verification/Prelude.thy ===== *)
theory Prelude
  imports Main
begin

text \<open>
  Shared vocabulary of the watchlist development: the collection of simplification
  rules the component theories register their evaluation lemmas in, and the list
  operations of JavaScript that the handlers of \<^verbatim>\<open>src/index.js\<close> call:
  \<^verbatim>\<open>Array.prototype.find\<close> is \<^const>\<open>List.find\<close>, \<^verbatim>\<open>findIndex\<close> (the position
  of the object that \<^verbatim>\<open>find\<close> returns, which the handlers then mutate in place) is
  \<^term>\<open>find_idx\<close>, and \<^verbatim>\<open>String.prototype.split\<close> on a one-character
  separator is \<^term>\<open>split_on\<close>.
\<close>

named_theorems model_simps "evaluation rules of the model's operations"

subsection \<open>The position of the first match\<close>

fun find_idx :: "('a \<Rightarrow> bool) \<Rightarrow> 'a list \<Rightarrow> nat option" where
  "find_idx P [] = None"
| "find_idx P (x # xs) = (if P x then Some 0 else map_option Suc (find_idx P xs))"

subsection \<open>Splitting a string at a separator\<close>

text \<open>
  \<^verbatim>\<open>s.split(c)\<close> for a one-character separator: the pieces between successive
  occurrences of \<open>c\<close>, empty pieces included; the empty string gives one empty piece.
\<close>

fun split_acc :: "'a \<Rightarrow> 'a list \<Rightarrow> 'a list \<Rightarrow> 'a list list" where
  "split_acc c acc [] = [rev acc]"
| "split_acc c acc (x # xs) =
     (if x = c then rev acc # split_acc c [] xs else split_acc c (x # acc) xs)"

definition split_on :: "'a \<Rightarrow> 'a list \<Rightarrow> 'a list list" where
  "split_on c s = split_acc c [] s"

subsection \<open>Removing a known prefix\<close>

definition drop_prefix :: "'a list \<Rightarrow> 'a list \<Rightarrow> 'a list option" where
  "drop_prefix p s = (if take (length p) s = p then Some (drop (length p) s) else None)"

subsection \<open>Facts on the first match\<close>

lemma find_idx_map: "find_idx P (map f xs) = find_idx (\<lambda>x. P (f x)) xs"
  by (induction xs) auto

lemma find_idx_None_iff: "find_idx P xs = None \<longleftrightarrow> (\<forall>x\<in>set xs. \<not> P x)"
  by (induction xs) auto

lemma find_idx_None [simp]: "\<forall>x\<in>set xs. \<not> P x \<Longrightarrow> find_idx P xs = None"
  by (simp add: find_idx_None_iff)

lemma find_filter_not [simp]: "List.find P (filter (\<lambda>x. \<not> P x) xs) = None"
  by (simp add: find_None_iff)

lemma find_idx_SomeD:
  "find_idx P xs = Some i \<Longrightarrow> i < length xs \<and> P (xs ! i) \<and> (\<forall>j<i. \<not> P (xs ! j))"
proof (induction xs arbitrary: i)
  case Nil
  then show ?case by simp
next
  case (Cons x xs)
  show ?case
  proof (cases "P x")
    case True
    with Cons.prems show ?thesis by simp
  next
    case False
    with Cons.prems obtain k where k: "find_idx P xs = Some k" and i: "i = Suc k"
      by auto
    from Cons.IH [OF k] False i show ?thesis
      by (auto simp: less_Suc_eq_0_disj)
  qed
qed

lemma find_idx_find: "List.find P xs = map_option (\<lambda>i. xs ! i) (find_idx P xs)"
  by (induction xs) (auto simp: option.map_comp comp_def)

lemma find_idx_Some_find:
  "find_idx P xs = Some i \<Longrightarrow> List.find P xs = Some (xs ! i)"
  by (simp add: find_idx_find)

lemma find_idx_Some_iff:
  "find_idx P xs = Some i \<longleftrightarrow> i < length xs \<and> P (xs ! i) \<and> (\<forall>j<i. \<not> P (xs ! j))"
proof
  assume "find_idx P xs = Some i"
  then show "i < length xs \<and> P (xs ! i) \<and> (\<forall>j<i. \<not> P (xs ! j))"
    by (rule find_idx_SomeD)
next
  assume r: "i < length xs \<and> P (xs ! i) \<and> (\<forall>j<i. \<not> P (xs ! j))"
  then show "find_idx P xs = Some i"
  proof (induction xs arbitrary: i)
    case Nil
    then show ?case by simp
  next
    case (Cons x xs)
    show ?case
    proof (cases i)
      case 0
      with Cons.prems show ?thesis by simp
    next
      case (Suc k)
      with Cons.prems have "\<not> P x" by auto
      moreover from Cons.prems Suc have "find_idx P xs = Some k"
        by (intro Cons.IH) auto
      ultimately show ?thesis using Suc by simp
    qed
  qed
qed

text \<open>Updating the first match in place leaves every other element where it was.\<close>

lemma find_idx_update_find:
  assumes "find_idx P xs = Some i" and "P y"
  shows "List.find P (xs[i := y]) = Some y"
proof -
  from assms(1) have i: "i < length xs" "\<forall>j<i. \<not> P (xs ! j)"
    by (auto dest: find_idx_SomeD)
  with assms(2) have "find_idx P (xs[i := y]) = Some i"
    by (simp add: find_idx_Some_iff nth_list_update)
  with i show ?thesis by (simp add: find_idx_find)
qed

lemma map_update_same: "f y = f (xs ! j) \<Longrightarrow> map f (xs[j := y]) = map f xs"
  by (metis list_update_id map_update)

subsection \<open>Facts on splitting\<close>

lemma split_acc_free: "c \<notin> set s \<Longrightarrow> split_acc c acc s = [rev acc @ s]"
  by (induction s arbitrary: acc) auto

lemma split_acc_append:
  "c \<notin> set w \<Longrightarrow> split_acc c acc (w @ c # s) = (rev acc @ w) # split_acc c [] s"
  by (induction w arbitrary: acc) auto

lemma split_on_free [simp]: "c \<notin> set s \<Longrightarrow> split_on c s = [s]"
  by (simp add: split_on_def split_acc_free)

lemma split_on_append [simp]:
  "c \<notin> set w \<Longrightarrow> split_on c (w @ c # s) = w # split_on c s"
  by (simp add: split_on_def split_acc_append)

lemma split_acc_nonempty: "split_acc c acc s \<noteq> []"
  by (induction s arbitrary: acc) auto

lemma split_on_nonempty [simp]: "split_on c s \<noteq> []"
  by (simp add: split_on_def split_acc_nonempty)

subsection \<open>Facts on prefixes and scanning\<close>

lemma drop_prefix_append [simp]: "drop_prefix p (p @ s) = Some s"
  by (simp add: drop_prefix_def)

lemma drop_prefix_Nil [simp]: "drop_prefix [] s = Some s"
  by (simp add: drop_prefix_def)

lemma drop_prefix_Cons_Nil [simp]: "drop_prefix (x # xs) [] = None"
  by (simp add: drop_prefix_def)

lemma drop_prefix_Cons_Cons [simp]:
  "drop_prefix (x # xs) (y # ys) = (if x = y then drop_prefix xs ys else None)"
  by (simp add: drop_prefix_def)

lemma drop_prefix_Some: "drop_prefix p s = Some r \<Longrightarrow> s = p @ r"
proof -
  assume "drop_prefix p s = Some r"
  then have "take (length p) s = p" and "r = drop (length p) s"
    by (auto simp: drop_prefix_def split: if_splits)
  then show "s = p @ r" by (metis append_take_drop_id)
qed

lemma takeWhile_stop [simp]:
  "\<forall>x\<in>set a. P x \<Longrightarrow> \<not> P c \<Longrightarrow> takeWhile P (a @ c # r) = a"
  by (simp add: takeWhile_append2)

lemma dropWhile_stop [simp]:
  "\<forall>x\<in>set a. P x \<Longrightarrow> \<not> P c \<Longrightarrow> dropWhile P (a @ c # r) = c # r"
  by (simp add: dropWhile_append2)

lemma dropWhile_none [simp]: "\<forall>x\<in>set xs. \<not> P x \<Longrightarrow> dropWhile P xs = xs"
  by (induction xs) auto

end
