(* ===== verification/Js_Value.thy ===== *)
theory Js_Value
  imports Prelude Complex_Main
begin

text \<open>
  The JavaScript values the handlers of \<^verbatim>\<open>src/index.js\<close> read from a request.
  A parsed JSON body (\<^verbatim>\<open>express.json()\<close>) is a \<open>json\<close> tree; a value that may be
  \<^verbatim>\<open>undefined\<close> is a \<open>json option\<close>, \<^const>\<open>None\<close> being \<^verbatim>\<open>undefined\<close>.
  JSON numbers are kept exactly, as rationals. The theory fixes the three JavaScript
  operations the handlers apply to such values: truthiness (\<^verbatim>\<open>!v\<close>, \<^verbatim>\<open>!!v\<close>,
  \<^verbatim>\<open>a && b\<close>), strict equality with a string literal (\<^verbatim>\<open>v === 'watched'\<close>),
  and the destructuring \<^verbatim>\<open>const { k } = req.body || {}\<close>.
\<close>

datatype json =
    JNull
  | JBool bool
  | JNum rat
  | JStr string
  | JArr "json list"
  | JObj "(string \<times> json) list"

text \<open>
  ECMAScript ToBoolean: \<^verbatim>\<open>null\<close>, \<^verbatim>\<open>false\<close>, \<^verbatim>\<open>0\<close> (and \<^verbatim>\<open>-0\<close>) and the empty
  string are falsy; arrays and objects are truthy even when empty. JSON has no
  \<^verbatim>\<open>NaN\<close>.
\<close>

fun truthy :: "json \<Rightarrow> bool" where
  "truthy JNull = False"
| "truthy (JBool b) = b"
| "truthy (JNum r) = (r \<noteq> 0)"
| "truthy (JStr s) = (s \<noteq> [])"
| "truthy (JArr _) = True"
| "truthy (JObj _) = True"

text \<open>ToBoolean of a value that may be \<^verbatim>\<open>undefined\<close>: \<^verbatim>\<open>!!v\<close>.\<close>

definition js_truthy :: "json option \<Rightarrow> bool" where
  "js_truthy v = (case v of None \<Rightarrow> False | Some j \<Rightarrow> truthy j)"

text \<open>
  \<^verbatim>\<open>const { k } = req.body || {}\<close>: a body that is \<^verbatim>\<open>undefined\<close> or falsy
  becomes \<^verbatim>\<open>{}\<close>; a property read on anything but an object gives \<^verbatim>\<open>undefined\<close>
  (the keys the handlers read are no property of arrays, strings or
  \<^verbatim>\<open>Object.prototype\<close>); \<^verbatim>\<open>JSON.parse\<close> keeps the last of duplicated keys.
\<close>

definition body_field :: "json option \<Rightarrow> string \<Rightarrow> json option" where
  "body_field b k = (case b of Some (JObj kvs) \<Rightarrow> map_of (rev kvs) k | _ \<Rightarrow> None)"

text \<open>\<^verbatim>\<open>v === s\<close> for a string \<open>s\<close>: true only for a string value with the same characters.\<close>

definition strict_eq_str :: "json option \<Rightarrow> string \<Rightarrow> bool" where
  "strict_eq_str v s \<longleftrightarrow> v = Some (JStr s)"

lemma js_truthy_simps [simp, model_simps]:
  "js_truthy None = False"
  "js_truthy (Some j) = truthy j"
  by (simp_all add: js_truthy_def)

lemma js_truthy_Some: "js_truthy v \<Longrightarrow> \<exists>j. v = Some j \<and> truthy j"
  by (cases v) auto

lemma body_field_obj [simp, model_simps]:
  "body_field (Some (JObj kvs)) k = map_of (rev kvs) k"
  by (simp add: body_field_def)

lemma body_field_not_obj:
  "(\<forall>kvs. b \<noteq> Some (JObj kvs)) \<Longrightarrow> body_field b k = None"
  by (auto simp: body_field_def split: option.splits json.splits)

lemma strict_eq_str_iff [simp]: "strict_eq_str v s \<longleftrightarrow> v = Some (JStr s)"
  by (simp add: strict_eq_str_def)

end
