(* ===== verification/Js_Number.thy ===== *)
theory Js_Number
  imports Decimal Js_Value
begin

text \<open>
  \<^verbatim>\<open>Number(req.params.id)\<close>: the ECMAScript StringToNumber conversion that every
  \<^verbatim>\<open>/movies/:id\<close> handler of \<^verbatim>\<open>src/index.js\<close> applies to the path parameter
  before comparing it with a stored id. It is part of the JavaScript runtime, not of
  the repository, and is modelled from the language definition: surrounding white
  space is dropped, the empty string is \<open>0\<close>, \<^verbatim>\<open>0x\<close>/\<^verbatim>\<open>0o\<close>/\<^verbatim>\<open>0b\<close> prefixes
  read hexadecimal, octal and binary integers, \<^verbatim>\<open>Infinity\<close> may carry a sign, and a
  decimal literal is an optional sign, digits with an optional fraction, and an
  optional exponent. Anything else is \<^verbatim>\<open>NaN\<close>.
  The value is kept as an exact rational where the runtime rounds to the nearest
  double; the two agree on every literal whose value is an integer of magnitude below
  \<open>2^53\<close>, which covers the movie ids the store generates.
\<close>

datatype js_number = NumVal rat | PosInf | NegInf | NaN

text \<open>White space and line terminators of the ASCII range.\<close>

definition js_ws :: "char \<Rightarrow> bool" where
  "js_ws c \<longleftrightarrow> (of_char c :: nat) \<in> {9, 10, 11, 12, 13, 32}"

definition trim_js :: "string \<Rightarrow> string" where
  "trim_js s = rev (dropWhile js_ws (rev (dropWhile js_ws s)))"

text \<open>Digits of a radix up to 36, letters in either case.\<close>

definition radix_digit :: "nat \<Rightarrow> char \<Rightarrow> nat option" where
  "radix_digit b c =
     (let k = (of_char c :: nat);
          d = (if 48 \<le> k \<and> k \<le> 57 then k - 48
               else if 97 \<le> k \<and> k \<le> 122 then k - 87
               else if 65 \<le> k \<and> k \<le> 90 then k - 55 else b)
      in if d < b then Some d else None)"

fun radix_acc :: "nat \<Rightarrow> nat \<Rightarrow> string \<Rightarrow> nat option" where
  "radix_acc b acc [] = Some acc"
| "radix_acc b acc (c # cs) =
     (case radix_digit b c of None \<Rightarrow> None | Some d \<Rightarrow> radix_acc b (b * acc + d) cs)"

definition parse_radix :: "nat \<Rightarrow> string \<Rightarrow> nat option" where
  "parse_radix b ds = (if ds = [] then None else radix_acc b 0 ds)"

definition parse_nondecimal :: "string \<Rightarrow> js_number option" where
  "parse_nondecimal s =
     (case s of
        c0 # c1 # ds \<Rightarrow>
          if c0 \<noteq> CHR ''0'' then None
          else if c1 = CHR ''x'' \<or> c1 = CHR ''X'' then map_option (NumVal \<circ> of_nat) (parse_radix 16 ds)
          else if c1 = CHR ''o'' \<or> c1 = CHR ''O'' then map_option (NumVal \<circ> of_nat) (parse_radix 8 ds)
          else if c1 = CHR ''b'' \<or> c1 = CHR ''B'' then map_option (NumVal \<circ> of_nat) (parse_radix 2 ds)
          else None
      | _ \<Rightarrow> None)"

definition pow10 :: "int \<Rightarrow> rat" where
  "pow10 e = (if 0 \<le> e then 10 ^ nat e else 1 / 10 ^ nat (- e))"

definition parse_exponent :: "string \<Rightarrow> int option" where
  "parse_exponent s =
     (case s of
        c # ds \<Rightarrow>
          if c = CHR ''+'' then map_option int (parse_nat ds)
          else if c = CHR ''-'' then map_option (\<lambda>n. - int n) (parse_nat ds)
          else map_option int (parse_nat s)
      | [] \<Rightarrow> None)"

text \<open>\<open>digits [. digits]\<close> or \<open>. digits\<close>, at least one digit in all.\<close>

definition parse_mantissa :: "string \<Rightarrow> rat option" where
  "parse_mantissa s =
     (let ip = takeWhile is_digit s; r = dropWhile is_digit s in
      case r of
        [] \<Rightarrow> if ip = [] then None else Some (of_nat (nat_of_digits ip))
      | c # fp \<Rightarrow>
          if c = CHR ''.'' \<and> list_all is_digit fp \<and> (ip \<noteq> [] \<or> fp \<noteq> [])
          then Some (of_nat (nat_of_digits (ip @ fp)) / 10 ^ length fp)
          else None)"

definition is_exp_mark :: "char \<Rightarrow> bool" where
  "is_exp_mark c \<longleftrightarrow> c = CHR ''e'' \<or> c = CHR ''E''"

definition parse_unsigned_decimal :: "string \<Rightarrow> js_number option" where
  "parse_unsigned_decimal s =
     (if s = ''Infinity'' then Some PosInf
      else
        (let m = takeWhile (\<lambda>c. \<not> is_exp_mark c) s; r = dropWhile (\<lambda>c. \<not> is_exp_mark c) s in
         case parse_mantissa m of
           None \<Rightarrow> None
         | Some q \<Rightarrow>
             (case r of
                [] \<Rightarrow> Some (NumVal q)
              | _ # ex \<Rightarrow> map_option (\<lambda>e. NumVal (q * pow10 e)) (parse_exponent ex))))"

fun negate_num :: "js_number \<Rightarrow> js_number" where
  "negate_num (NumVal q) = NumVal (- q)"
| "negate_num PosInf = NegInf"
| "negate_num NegInf = PosInf"
| "negate_num NaN = NaN"

definition parse_decimal_literal :: "string \<Rightarrow> js_number option" where
  "parse_decimal_literal s =
     (case s of
        c # t \<Rightarrow>
          if c = CHR ''+'' then parse_unsigned_decimal t
          else if c = CHR ''-'' then map_option negate_num (parse_unsigned_decimal t)
          else parse_unsigned_decimal s
      | [] \<Rightarrow> None)"

definition to_number :: "string \<Rightarrow> js_number" where
  "to_number s =
     (let t = trim_js s in
      if t = [] then NumVal 0
      else case parse_nondecimal t of
             Some n \<Rightarrow> n
           | None \<Rightarrow> (case parse_decimal_literal t of Some n \<Rightarrow> n | None \<Rightarrow> NaN))"

text \<open>
  \<^verbatim>\<open>Number(x) === id\<close> where \<open>x\<close> is a stored id (a number, so \<^verbatim>\<open>Number\<close> is the
  identity on it) and \<open>id\<close> the converted parameter: \<^verbatim>\<open>NaN\<close> equals nothing, the
  infinities equal no stored id.
\<close>

definition num_eq_int :: "int \<Rightarrow> js_number \<Rightarrow> bool" where
  "num_eq_int i n \<longleftrightarrow> n = NumVal (of_int i)"

text \<open>The equations that evaluate \<open>to_number\<close> on a literal string by \<open>simp\<close>.\<close>

lemmas number_eval =
  to_number_def trim_js_def js_ws_def parse_nondecimal_def parse_radix_def radix_digit_def
  parse_decimal_literal_def parse_unsigned_decimal_def is_exp_mark_def parse_mantissa_def
  parse_exponent_def parse_nat_def pow10_def is_digit_def nat_of_digits_def digit_value_def

subsection \<open>Reading a printed integer\<close>

lemma show_int_no_ws: "c \<in> set (show_int i) \<Longrightarrow> \<not> js_ws c"
  using show_int_chars [of i] by (auto simp: js_ws_def is_digit_def)

lemma trim_js_show_int [simp]: "trim_js (show_int i) = show_int i"
  using show_int_no_ws [of _ i] by (simp add: trim_js_def)

lemma parse_nondecimal_digits:
  "set s \<subseteq> {CHR ''-''} \<union> {c. is_digit c} \<Longrightarrow> parse_nondecimal s = None"
  by (auto simp: parse_nondecimal_def is_digit_def split: list.splits)

lemma parse_mantissa_show_nat [simp]: "parse_mantissa (show_nat n) = Some (of_nat n)"
proof -
  have tw: "takeWhile is_digit (show_nat n) = show_nat n" and dw: "dropWhile is_digit (show_nat n) = []"
    using show_nat_all_digits [of _ n] by simp_all
  show ?thesis by (simp add: parse_mantissa_def Let_def tw dw)
qed

lemma parse_unsigned_decimal_show_nat [simp]:
  "parse_unsigned_decimal (show_nat n) = Some (NumVal (of_nat n))"
proof -
  have nexp: "\<not> is_exp_mark c" if "c \<in> set (show_nat n)" for c
    using show_nat_all_digits [OF that] by (auto simp: is_exp_mark_def is_digit_def)
  have tw: "takeWhile (\<lambda>c. \<not> is_exp_mark c) (show_nat n) = show_nat n"
    and dw: "dropWhile (\<lambda>c. \<not> is_exp_mark c) (show_nat n) = []"
    using nexp by simp_all
  have "show_nat n \<noteq> ''Infinity''"
    using show_nat_no_char [of "CHR ''I''" n] by (auto simp: is_digit_def)
  then show ?thesis by (simp add: parse_unsigned_decimal_def Let_def tw dw)
qed

lemma parse_decimal_literal_digit:
  "is_digit c \<Longrightarrow> parse_decimal_literal (c # t) = parse_unsigned_decimal (c # t)"
  by (auto simp: parse_decimal_literal_def is_digit_def)

lemma parse_decimal_literal_show_int:
  "parse_decimal_literal (show_int i) = Some (NumVal (of_int i))"
proof -
  have nat: "parse_decimal_literal (show_nat n) = Some (NumVal (of_nat n))" for n
  proof (cases "show_nat n")
    case (Cons c t)
    then have "is_digit c" using show_nat_all_digits [of c n] by simp
    then have "parse_decimal_literal (show_nat n) = parse_unsigned_decimal (show_nat n)"
      using Cons parse_decimal_literal_digit by simp
    then show ?thesis by simp
  qed simp
  show ?thesis
  proof (cases "i < 0")
    case True
    then have "parse_decimal_literal (show_int i) = map_option negate_num (Some (NumVal (of_nat (nat (- i)))))"
      by (simp add: show_int_def parse_decimal_literal_def)
    with True show ?thesis by simp
  next
    case False
    with nat [of "nat i"] show ?thesis by (simp add: show_int_def)
  qed
qed

lemma to_number_show_int: "to_number (show_int i) = NumVal (of_int i)"
proof -
  have "parse_nondecimal (show_int i) = None"
    by (rule parse_nondecimal_digits [OF show_int_chars])
  moreover have "show_int i \<noteq> []"
    by (simp add: show_int_def)
  ultimately show ?thesis
    by (simp add: to_number_def parse_decimal_literal_show_int)
qed

end
