(* ===== verification/Data_Model.thy ===== *)
theory Data_Model
  imports Js_Number
begin

text \<open>
  The in-memory data of \<^verbatim>\<open>src/index.js\<close> and the responses its handlers send.
  A movie object \<^verbatim>\<open>{ id, movietitle, language, watched }\<close> is the record
  \<open>movie\<close>: the id is a JavaScript number holding an integer (it comes from
  \<^verbatim>\<open>generateId\<close>), title and language are whatever JSON value the client sent,
  and \<^verbatim>\<open>watched\<close> is always a boolean, since every write of it goes through
  \<^verbatim>\<open>!!\<close> or the literal \<^verbatim>\<open>false\<close>. A user object
  \<^verbatim>\<open>{ id, username, password, movies }\<close> is the record \<open>user\<close>.
  A response is a status code and one of the bodies the handlers send; the file
  \<^verbatim>\<open>login.html\<close> is \<open>LoginPage\<close>, and the page of Express's default error handler
  is \<open>ErrorPage\<close>.
\<close>

record movie =
  movie_id :: int
  movietitle :: json
  language :: json
  watched :: bool

record user =
  user_id :: int
  username :: string
  password :: string
  movies :: "movie list"

datatype payload =
    Message string
  | TokenBody string
  | MovieBody movie
  | MovieList "movie list"
  | NoContent
  | LoginPage
  | ErrorPage string

record response =
  status :: nat
  body :: payload

text \<open>\<^verbatim>\<open>res.status(code).json({ message: text })\<close>.\<close>

definition msg :: "nat \<Rightarrow> string \<Rightarrow> response" where
  "msg code text = \<lparr>status = code, body = Message text\<rparr>"

lemma msg_simps [simp, model_simps]:
  "status (msg code text) = code"
  "body (msg code text) = Message text"
  by (simp_all add: msg_def)

end
