(* ===== verification/Credentials.thy ===== *)
theory Credentials
  imports Data_Model
begin

text \<open>
  The credential store of \<^verbatim>\<open>src/index.js\<close>: the module-level array \<^verbatim>\<open>users\<close>
  (lines 31--34), fixed at start-up, and the two lookups the program makes in it,
  by name and password in the login route (line 56) and by id in the access guard
  (line 76). Both are \<^verbatim>\<open>Array.prototype.find\<close>: the first entry that matches.
  The guard also needs the position of that entry, because the handlers after it
  mutate the very object it found.
\<close>

definition users_init :: "user list" where
  "users_init =
     [\<lparr>user_id = 1, username = ''Ashwanth'', password = ''kok123'', movies = []\<rparr>,
      \<lparr>user_id = 2, username = ''alice'', password = ''123'', movies = []\<rparr>]"

text \<open>\<^verbatim>\<open>users.find(u => u.username === username && u.password === password)\<close>\<close>

definition find_by_credentials :: "json option \<Rightarrow> json option \<Rightarrow> user list \<Rightarrow> user option" where
  "find_by_credentials un pw us =
     List.find (\<lambda>u. strict_eq_str un (username u) \<and> strict_eq_str pw (password u)) us"

text \<open>\<^verbatim>\<open>users.find(u => u.id === decoded.id)\<close>, as the position of the match.\<close>

definition find_by_id :: "int \<Rightarrow> user list \<Rightarrow> nat option" where
  "find_by_id i us = find_idx (\<lambda>u. user_id u = i) us"

lemma find_by_id_distinct:
  assumes "distinct (map user_id us)" and "i < length us"
  shows "find_by_id (user_id (us ! i)) us = Some i"
proof -
  have "\<forall>j<i. user_id (us ! j) \<noteq> user_id (us ! i)"
    using assms by (auto simp: distinct_conv_nth)
  with assms(2) show ?thesis by (simp add: find_by_id_def find_idx_Some_iff)
qed

lemma users_init_ids_distinct: "distinct (map user_id users_init)"
  by (simp add: users_init_def)

end
