(* ===== verification/Watchlist.thy ===== *)
theory Watchlist
  imports Credentials "HOL-Library.Sublist" "HOL-Library.Multiset"
begin

text \<open>
  The watchlist store: the six \<^verbatim>\<open>/movies\<close> handlers of \<^verbatim>\<open>src/index.js\<close>
  (lines 98--185) and \<^verbatim>\<open>generateId\<close> (lines 39--42). Each handler runs after the
  access guard has bound \<^verbatim>\<open>req.user\<close> to an entry of the user table; it is
  modelled as a function of the request data and of that user, returning the
  response and the user as the handler leaves it (the code mutates the object in
  place; the server theory writes the result back at the guard's position).
  Reads and writes of one movie go through the first movie whose id equals
  \<^verbatim>\<open>Number(req.params.id)\<close>, as \<^verbatim>\<open>find\<close> does; the delete handler filters out
  every such movie.
  The lemmas give the behaviour of each handler on each of its branches, errors
  included, the contract of the status filter, and how the handlers act on the
  sequence of movie ids: update handlers keep it, delete filters it, create appends
  the generated id, which nothing makes fresh.
\<close>

subsection \<open>Id generation\<close>

text \<open>
  \<^verbatim>\<open>Date.now() + Math.floor(Math.random() * 1000)\<close>: the clock in milliseconds and
  the random draw \<open>r\<close>, a number with \<open>0 \<le> r < 1\<close>, are inputs of the request.
\<close>

definition generateId :: "nat \<Rightarrow> rat \<Rightarrow> int" where
  "generateId now r = int now + \<lfloor>r * 1000\<rfloor>"

definition random_ok :: "rat \<Rightarrow> bool" where
  "random_ok r \<longleftrightarrow> 0 \<le> r \<and> r < 1"

subsection \<open>Handlers\<close>

text \<open>\<^verbatim>\<open>Number(m.id) === id\<close>\<close>

definition movie_matches :: "js_number \<Rightarrow> movie \<Rightarrow> bool" where
  "movie_matches n m \<longleftrightarrow> num_eq_int (movie_id m) n"

text \<open>\<^verbatim>\<open>GET /movies?status=...\<close> (lines 98--109)\<close>

definition get_movies :: "json option \<Rightarrow> user \<Rightarrow> response" where
  "get_movies st u =
     (let ms = movies u;
          ms' = (if strict_eq_str st ''watched'' then filter (\<lambda>m. watched m = True) ms
                 else if strict_eq_str st ''unwatched'' then filter (\<lambda>m. watched m = False) ms
                 else ms)
      in \<lparr>status = 200, body = MovieList ms'\<rparr>)"

text \<open>\<^verbatim>\<open>POST /movies\<close> (lines 114--130)\<close>

definition post_movie :: "json option \<Rightarrow> nat \<Rightarrow> rat \<Rightarrow> user \<Rightarrow> response \<times> user" where
  "post_movie b now r u =
     (let t = body_field b ''movietitle''; l = body_field b ''language'';
          w = body_field b ''watched''
      in if \<not> js_truthy t \<or> \<not> js_truthy l
         then (msg 400 ''movietitle and language are required'', u)
         else
           (case (t, l) of
              (Some t', Some l') \<Rightarrow>
                let m = \<lparr>movie_id = generateId now r, movietitle = t', language = l',
                         watched = (if w = None then False else js_truthy w)\<rparr>
                in (\<lparr>status = 201, body = MovieBody m\<rparr>, u\<lparr>movies := movies u @ [m]\<rparr>)
            | _ \<Rightarrow> (msg 400 ''movietitle and language are required'', u)))"

text \<open>\<^verbatim>\<open>GET /movies/:id\<close> (lines 134--139)\<close>

definition get_movie :: "string \<Rightarrow> user \<Rightarrow> response" where
  "get_movie p u =
     (let i = to_number p in
      case List.find (movie_matches i) (movies u) of
        None \<Rightarrow> msg 404 ''Movie not found''
      | Some m \<Rightarrow> \<lparr>status = 200, body = MovieBody m\<rparr>)"

text \<open>\<^verbatim>\<open>PUT /movies/:id\<close> (lines 143--158): the lookup comes before the check of the body.\<close>

definition put_movie :: "string \<Rightarrow> json option \<Rightarrow> user \<Rightarrow> response \<times> user" where
  "put_movie p b u =
     (let i = to_number p in
      case find_idx (movie_matches i) (movies u) of
        None \<Rightarrow> (msg 404 ''Movie not found'', u)
      | Some j \<Rightarrow>
          (case (body_field b ''movietitle'', body_field b ''language'', body_field b ''watched'') of
             (Some t, Some l, Some w) \<Rightarrow>
               let m = (movies u ! j)\<lparr>movietitle := t, language := l, watched := truthy w\<rparr>
               in (\<lparr>status = 200, body = MovieBody m\<rparr>, u\<lparr>movies := (movies u)[j := m]\<rparr>)
           | _ \<Rightarrow> (msg 400 ''movietitle, language and watched are required for full update'', u)))"

text \<open>\<^verbatim>\<open>PATCH /movies/:id\<close> (lines 162--173): each field present in the body is written.\<close>

definition patch_movie :: "string \<Rightarrow> json option \<Rightarrow> user \<Rightarrow> response \<times> user" where
  "patch_movie p b u =
     (let i = to_number p in
      case find_idx (movie_matches i) (movies u) of
        None \<Rightarrow> (msg 404 ''Movie not found'', u)
      | Some j \<Rightarrow>
          (let m0 = movies u ! j;
               m1 = (case body_field b ''movietitle'' of None \<Rightarrow> m0 | Some t \<Rightarrow> m0\<lparr>movietitle := t\<rparr>);
               m2 = (case body_field b ''language'' of None \<Rightarrow> m1 | Some l \<Rightarrow> m1\<lparr>language := l\<rparr>);
               m3 = (case body_field b ''watched'' of None \<Rightarrow> m2 | Some w \<Rightarrow> m2\<lparr>watched := truthy w\<rparr>)
           in (\<lparr>status = 200, body = MovieBody m3\<rparr>, u\<lparr>movies := (movies u)[j := m3]\<rparr>)))"

text \<open>
  \<^verbatim>\<open>DELETE /movies/:id\<close> (lines 177--185): the list is replaced by the filtered
  one before the lengths are compared, so the assignment happens on both branches.
\<close>

definition delete_movie :: "string \<Rightarrow> user \<Rightarrow> response \<times> user" where
  "delete_movie p u =
     (let i = to_number p;
          len_before = length (movies u);
          u' = u\<lparr>movies := filter (\<lambda>m. \<not> movie_matches i m) (movies u)\<rparr>;
          len_after = length (movies u')
      in if len_before = len_after then (msg 404 ''Movie not found'', u')
         else (\<lparr>status = 204, body = NoContent\<rparr>, u'))"

subsection \<open>Contracts\<close>

text \<open>
  The contract of the status filter: the answer is the sub-sequence of the user's
  movies with the requested flag, in their order, each as often as in the list.
\<close>

definition status_filter_spec :: "bool \<Rightarrow> movie list \<Rightarrow> movie list \<Rightarrow> bool" where
  "status_filter_spec b full ms \<longleftrightarrow>
     subseq ms full \<and> (\<forall>m\<in>set ms. watched m = b) \<and>
     mset ms = filter_mset (\<lambda>m. watched m = b) (mset full)"

text \<open>Movie ids are unique within a user's collection.\<close>

definition ids_distinct :: "user \<Rightarrow> bool" where
  "ids_distinct u \<longleftrightarrow> distinct (map movie_id (movies u))"

text \<open>Sample data on which the witnesses evaluate the lemmas.\<close>

definition demo_body :: "json option" where
  "demo_body = Some (JObj [(''movietitle'', JStr ''Inception''), (''language'', JStr ''English'')])"

definition demo_user :: user where
  "demo_user =
     \<lparr>user_id = 2, username = ''alice'', password = ''123'',
      movies = [\<lparr>movie_id = 1005, movietitle = JStr ''Inception'', language = JStr ''English'', watched = False\<rparr>,
                \<lparr>movie_id = 2042, movietitle = JStr ''Heat'', language = JStr ''English'', watched = True\<rparr>]\<rparr>"

subsection \<open>Helper facts\<close>

lemma status_filter_spec_filter: "status_filter_spec b full (filter (\<lambda>m. watched m = b) full)"
  by (simp add: status_filter_spec_def)

lemma movie_update_fields:
  "m\<lparr>movietitle := t, language := l, watched := w\<rparr> =
     \<lparr>movie_id = movie_id m, movietitle = t, language = l, watched = w\<rparr>"
  by (cases m) simp

text \<open>How each handler acts on the sequence of ids of the user's movies.\<close>

lemma put_movie_ids: "map movie_id (movies (snd (put_movie p b u))) = map movie_id (movies u)"
  by (auto simp: put_movie_def Let_def map_update_same split: option.splits)

lemma patch_movie_ids: "map movie_id (movies (snd (patch_movie p b u))) = map movie_id (movies u)"
  by (auto simp: patch_movie_def Let_def map_update_same split: option.splits)

lemma delete_movie_ids:
  "map movie_id (movies (snd (delete_movie p u))) =
     filter (\<lambda>i. \<not> num_eq_int i (to_number p)) (map movie_id (movies u))"
  by (simp add: delete_movie_def Let_def filter_map comp_def movie_matches_def)

lemma post_movie_ids:
  "map movie_id (movies (snd (post_movie b now r u))) =
     map movie_id (movies u) @
       (if js_truthy (body_field b ''movietitle'') \<and> js_truthy (body_field b ''language'')
        then [generateId now r] else [])"
  by (auto simp: post_movie_def Let_def dest!: js_truthy_Some split: option.splits)

text \<open>The handlers write the \<open>movies\<close> field of the user and nothing else.\<close>

lemma handlers_frame:
  "(snd (post_movie b now r u))\<lparr>movies := movies u\<rparr> = u \<and>
   (snd (put_movie p b u))\<lparr>movies := movies u\<rparr> = u \<and>
   (snd (patch_movie p b u))\<lparr>movies := movies u\<rparr> = u \<and>
   (snd (delete_movie p u))\<lparr>movies := movies u\<rparr> = u"
  by (simp add: post_movie_def put_movie_def patch_movie_def delete_movie_def Let_def
      split: option.splits prod.splits)

lemma demo_ids [simp]:
  "to_number ''1005'' = NumVal 1005" "to_number ''2042'' = NumVal 2042" "to_number ''7'' = NumVal 7"
  by (simp_all add: number_eval)

lemma demo_finds [simp]:
  "find_idx (movie_matches (NumVal 1005)) (movies demo_user) = Some 0"
  "find_idx (movie_matches (NumVal 2042)) (movies demo_user) = Some 1"
  by (simp_all add: demo_user_def movie_matches_def num_eq_int_def)

subsection \<open>Id generation\<close>

text \<open>
  C39. A generated id lies between the clock reading and 999 milliseconds after it,
  whenever the random draw is in \<open>[0, 1)\<close>.
\<close>

lemma generateId_bounds:
  assumes "random_ok r"
  shows "int now \<le> generateId now r \<and> generateId now r \<le> int now + 999"
proof -
  from assms have "0 \<le> r * 1000" and "r * 1000 < 1000"
    by (simp_all add: random_ok_def)
  then have "0 \<le> \<lfloor>r * 1000\<rfloor>" and "\<lfloor>r * 1000\<rfloor> \<le> 999"
    by simp_all
  then show ?thesis by (simp add: generateId_def)
qed

lemma generateId_bounds_witness:
  "random_ok (1/2) \<and> int 5 \<le> generateId 5 (1/2) \<and> generateId 5 (1/2) \<le> int 5 + 999"
proof -
  have h: "random_ok (1/2)" by (simp add: random_ok_def)
  show ?thesis using h generateId_bounds [OF h, of 5] by simp
qed

subsection \<open>Listing\<close>

text \<open>
  C24. \<^verbatim>\<open>GET /movies\<close> answers 200. With \<^verbatim>\<open>status=watched\<close> (or
  \<^verbatim>\<open>unwatched\<close>) the list is exactly the movies with that flag, in the order of the
  full list; any other value of the parameter, or none, gives the full list.
\<close>

lemma get_movies_status:
  "\<exists>ms. get_movies st u = \<lparr>status = 200, body = MovieList ms\<rparr> \<and>
     (if st = Some (JStr ''watched'') then status_filter_spec True (movies u) ms
      else if st = Some (JStr ''unwatched'') then status_filter_spec False (movies u) ms
      else ms = movies u)"
  using status_filter_spec_filter [of True "movies u"] status_filter_spec_filter [of False "movies u"]
  by (auto simp: get_movies_def Let_def)

lemma get_movies_status_witness:
  "\<exists>ms. get_movies (Some (JStr ''watched'')) demo_user = \<lparr>status = 200, body = MovieList ms\<rparr> \<and>
     status_filter_spec True (movies demo_user) ms \<and> length ms = 1"
  using get_movies_status [of "Some (JStr ''watched'')" demo_user]
  by (auto simp: get_movies_def demo_user_def)

subsection \<open>Creation\<close>

text \<open>
  C28. A POST whose title and language are truthy answers 201 with a movie carrying
  the generated id, the two values, and \<^verbatim>\<open>watched\<close> the truthiness of the sent
  flag (false when it is absent), and appends that movie at the end of the list.
\<close>

lemma post_movie_created:
  assumes "body_field b ''movietitle'' = Some t" and "truthy t"
    and "body_field b ''language'' = Some l" and "truthy l"
  shows "post_movie b now r u =
    (let m = \<lparr>movie_id = generateId now r, movietitle = t, language = l,
              watched = js_truthy (body_field b ''watched'')\<rparr>
     in (\<lparr>status = 201, body = MovieBody m\<rparr>, u\<lparr>movies := movies u @ [m]\<rparr>))"
  using assms by (simp add: post_movie_def Let_def)

lemma post_movie_created_witness:
  "post_movie demo_body 1000 (1/2) demo_user =
     (\<lparr>status = 201, body = MovieBody \<lparr>movie_id = 1500, movietitle = JStr ''Inception'',
                                        language = JStr ''English'', watched = False\<rparr>\<rparr>,
      demo_user\<lparr>movies := movies demo_user @
        [\<lparr>movie_id = 1500, movietitle = JStr ''Inception'', language = JStr ''English'', watched = False\<rparr>]\<rparr>)"
proof -
  have h: "body_field demo_body ''movietitle'' = Some (JStr ''Inception'')" "truthy (JStr ''Inception'')"
    "body_field demo_body ''language'' = Some (JStr ''English'')" "truthy (JStr ''English'')"
    by (simp_all add: demo_body_def)
  show ?thesis
    using post_movie_created [OF h, of 1000 "1/2" demo_user]
    by (simp add: demo_body_def generateId_def Let_def)
qed

text \<open>
  C29. A POST whose title or language is missing or falsy answers 400 and leaves the
  list as it was.
\<close>

lemma post_movie_invalid:
  assumes "\<not> js_truthy (body_field b ''movietitle'') \<or> \<not> js_truthy (body_field b ''language'')"
  shows "post_movie b now r u = (msg 400 ''movietitle and language are required'', u)"
  using assms by (simp add: post_movie_def Let_def)

lemma post_movie_invalid_witness:
  "post_movie (Some (JObj [(''movietitle'', JStr []), (''language'', JStr ''English'')])) 1000 (1/2) demo_user =
     (msg 400 ''movietitle and language are required'', demo_user)"
proof -
  have h: "\<not> js_truthy (body_field (Some (JObj [(''movietitle'', JStr []), (''language'', JStr ''English'')])) ''movietitle'')
           \<or> \<not> js_truthy (body_field (Some (JObj [(''movietitle'', JStr []), (''language'', JStr ''English'')])) ''language'')"
    by simp
  show ?thesis using post_movie_invalid [OF h] .
qed

subsection \<open>Replacement\<close>

text \<open>
  C30. A PUT whose id matches no movie answers 404 and changes nothing, whatever the
  body: the lookup is made before the body is checked.
\<close>

lemma put_movie_not_found:
  assumes "\<forall>m\<in>set (movies u). \<not> movie_matches (to_number p) m"
  shows "put_movie p b u = (msg 404 ''Movie not found'', u)"
proof -
  from assms have "find_idx (movie_matches (to_number p)) (movies u) = None"
    by (simp add: find_idx_None_iff)
  then show ?thesis by (simp add: put_movie_def)
qed

lemma put_movie_not_found_witness:
  "put_movie ''7'' None demo_user = (msg 404 ''Movie not found'', demo_user)"
proof -
  have h: "\<forall>m\<in>set (movies demo_user). \<not> movie_matches (to_number ''7'') m"
    by (simp add: demo_user_def movie_matches_def num_eq_int_def)
  show ?thesis using put_movie_not_found [OF h] .
qed

text \<open>
  C31. A PUT on a movie that exists, whose body lacks one of title, language and
  watched, answers 400 and changes nothing.
\<close>

lemma put_movie_missing_field:
  assumes "find_idx (movie_matches (to_number p)) (movies u) = Some j"
    and "body_field b ''movietitle'' = None \<or> body_field b ''language'' = None \<or> body_field b ''watched'' = None"
  shows "put_movie p b u = (msg 400 ''movietitle, language and watched are required for full update'', u)"
  using assms by (auto simp: put_movie_def split: option.splits)

lemma put_movie_missing_field_witness:
  "put_movie ''1005'' demo_body demo_user =
     (msg 400 ''movietitle, language and watched are required for full update'', demo_user)"
proof -
  have h1: "find_idx (movie_matches (to_number ''1005'')) (movies demo_user) = Some 0"
    by simp
  have h2: "body_field demo_body ''movietitle'' = None \<or> body_field demo_body ''language'' = None \<or>
            body_field demo_body ''watched'' = None"
    by (simp add: demo_body_def)
  show ?thesis using put_movie_missing_field [OF h1 h2] .
qed

text \<open>
  C32. A PUT on a movie that exists, with all three fields, answers 200 with the
  movie rewritten (its id kept, \<^verbatim>\<open>watched\<close> coerced to a boolean), and replaces
  that movie, the first whose id matches, and no other.
\<close>

lemma put_movie_replaced:
  assumes "find_idx (movie_matches (to_number p)) (movies u) = Some j"
    and "body_field b ''movietitle'' = Some t" and "body_field b ''language'' = Some l"
    and "body_field b ''watched'' = Some w"
  shows "put_movie p b u =
    (let m = \<lparr>movie_id = movie_id (movies u ! j), movietitle = t, language = l, watched = truthy w\<rparr>
     in (\<lparr>status = 200, body = MovieBody m\<rparr>, u\<lparr>movies := (movies u)[j := m]\<rparr>))"
  using assms by (simp add: put_movie_def Let_def movie_update_fields)

lemma put_movie_replaced_witness:
  "put_movie ''1005'' (Some (JObj [(''movietitle'', JStr ''Tenet''), (''language'', JStr ''English''),
                                   (''watched'', JNum 1)])) demo_user =
     (\<lparr>status = 200, body = MovieBody \<lparr>movie_id = 1005, movietitle = JStr ''Tenet'',
                                        language = JStr ''English'', watched = True\<rparr>\<rparr>,
      demo_user\<lparr>movies := (movies demo_user)[0 := \<lparr>movie_id = 1005, movietitle = JStr ''Tenet'',
                                        language = JStr ''English'', watched = True\<rparr>]\<rparr>)"
proof -
  let ?b = "Some (JObj [(''movietitle'', JStr ''Tenet''), (''language'', JStr ''English''), (''watched'', JNum 1)])"
  have h: "find_idx (movie_matches (to_number ''1005'')) (movies demo_user) = Some 0"
    "body_field ?b ''movietitle'' = Some (JStr ''Tenet'')" "body_field ?b ''language'' = Some (JStr ''English'')"
    "body_field ?b ''watched'' = Some (JNum 1)"
    by simp_all
  show ?thesis using put_movie_replaced [OF h] by (simp add: Let_def demo_user_def)
qed

subsection \<open>Partial update\<close>

text \<open>
  C33. A PATCH on a movie that exists answers 200 and rewrites, in the first
  matching movie only, exactly the fields present in the body; absent fields and
  the id are left as they were, and an empty body changes nothing.
\<close>

lemma patch_movie_fields:
  assumes "find_idx (movie_matches (to_number p)) (movies u) = Some j"
  shows "\<exists>m. patch_movie p b u = (\<lparr>status = 200, body = MovieBody m\<rparr>, u\<lparr>movies := (movies u)[j := m]\<rparr>) \<and>
    movie_id m = movie_id (movies u ! j) \<and>
    movietitle m = (case body_field b ''movietitle'' of None \<Rightarrow> movietitle (movies u ! j) | Some t \<Rightarrow> t) \<and>
    language m = (case body_field b ''language'' of None \<Rightarrow> language (movies u ! j) | Some l \<Rightarrow> l) \<and>
    watched m = (case body_field b ''watched'' of None \<Rightarrow> watched (movies u ! j) | Some w \<Rightarrow> truthy w)"
  using assms by (simp add: patch_movie_def Let_def split: option.splits)

lemma patch_movie_fields_witness:
  "\<exists>m. patch_movie ''2042'' (Some (JObj [(''watched'', JBool False)])) demo_user =
       (\<lparr>status = 200, body = MovieBody m\<rparr>, demo_user\<lparr>movies := (movies demo_user)[1 := m]\<rparr>) \<and>
     movie_id m = 2042 \<and> movietitle m = JStr ''Heat'' \<and> language m = JStr ''English'' \<and> \<not> watched m"
proof -
  have h: "find_idx (movie_matches (to_number ''2042'')) (movies demo_user) = Some 1"
    by simp
  show ?thesis using patch_movie_fields [OF h, of "Some (JObj [(''watched'', JBool False)])"]
    by (simp add: demo_user_def)
qed

subsection \<open>Deletion\<close>

text \<open>
  C34. A DELETE answers 204 and removes every movie whose id matches when there is
  one; otherwise it answers 404 and the list is unchanged.
\<close>

lemma delete_movie_result:
  "delete_movie p u =
     (if \<exists>m\<in>set (movies u). movie_matches (to_number p) m
      then (\<lparr>status = 204, body = NoContent\<rparr>,
            u\<lparr>movies := filter (\<lambda>m. \<not> movie_matches (to_number p) m) (movies u)\<rparr>)
      else (msg 404 ''Movie not found'', u))"
proof (cases "\<exists>m\<in>set (movies u). movie_matches (to_number p) m")
  case True
  then have "length (filter (\<lambda>m. \<not> movie_matches (to_number p) m) (movies u)) < length (movies u)"
    by (auto intro: length_filter_less)
  with True show ?thesis by (simp add: delete_movie_def Let_def)
next
  case False
  then have "filter (\<lambda>m. \<not> movie_matches (to_number p) m) (movies u) = movies u"
    by (simp add: filter_id_conv)
  with False show ?thesis by (simp add: delete_movie_def Let_def)
qed

lemma delete_movie_result_witness:
  "delete_movie ''1005'' demo_user =
     (\<lparr>status = 204, body = NoContent\<rparr>,
      demo_user\<lparr>movies := [\<lparr>movie_id = 2042, movietitle = JStr ''Heat'', language = JStr ''English'', watched = True\<rparr>]\<rparr>)"
  using delete_movie_result [of "''1005''" demo_user]
  by (simp add: demo_user_def movie_matches_def num_eq_int_def)

text \<open>C35. After a DELETE, a GET of the same id answers 404.\<close>

lemma get_after_delete:
  "get_movie p (snd (delete_movie p u)) = msg 404 ''Movie not found''"
  by (simp add: delete_movie_def get_movie_def Let_def)

subsection \<open>Uniqueness of ids\<close>

text \<open>
  C36. Replacing, patching and deleting keep the ids of a user's movies pairwise
  distinct.
\<close>

lemma ids_distinct_preserved:
  assumes "ids_distinct u"
  shows "ids_distinct (snd (put_movie p b u)) \<and> ids_distinct (snd (patch_movie p b u)) \<and>
         ids_distinct (snd (delete_movie p u))"
  using assms by (simp add: ids_distinct_def put_movie_ids patch_movie_ids delete_movie_ids)

lemma ids_distinct_preserved_witness:
  "ids_distinct (snd (put_movie ''1005'' demo_body demo_user)) \<and>
   ids_distinct (snd (patch_movie ''1005'' demo_body demo_user)) \<and>
   ids_distinct (snd (delete_movie ''1005'' demo_user))"
proof -
  have h: "ids_distinct demo_user" by (simp add: ids_distinct_def demo_user_def)
  show ?thesis using ids_distinct_preserved [OF h] .
qed

text \<open>
  C37. A successful POST keeps the ids distinct exactly when the generated id is not
  already the id of one of the user's movies; nothing in the handler checks this.
\<close>

lemma ids_distinct_post:
  assumes "ids_distinct u"
    and "js_truthy (body_field b ''movietitle'')" and "js_truthy (body_field b ''language'')"
  shows "ids_distinct (snd (post_movie b now r u)) \<longleftrightarrow> generateId now r \<notin> movie_id ` set (movies u)"
  using assms by (simp add: ids_distinct_def post_movie_ids)

lemma ids_distinct_post_witness:
  "\<not> ids_distinct (snd (post_movie demo_body 1000 (5/1000) demo_user))"
proof -
  have h: "ids_distinct demo_user" "js_truthy (body_field demo_body ''movietitle'')"
    "js_truthy (body_field demo_body ''language'')"
    by (simp_all add: ids_distinct_def demo_user_def demo_body_def)
  have "generateId 1000 (5/1000) \<in> movie_id ` set (movies demo_user)"
    by (simp add: generateId_def demo_user_def)
  then show ?thesis using ids_distinct_post [OF h, of 1000 "5/1000"] by simp
qed

text \<open>
  C38. Two creations one millisecond apart can receive the same id, for every user,
  every clock and every valid body: whenever the first draw is at least 1/1000 (all
  but a thousandth of the draws), a second draw 1/1000 smaller one millisecond later
  is also valid and gives the same id, and the list then has two movies with it.
\<close>

lemma post_movie_duplicate_id:
  assumes "js_truthy (body_field b ''movietitle'')" and "js_truthy (body_field b ''language'')"
    and "random_ok r" and "1 / 1000 \<le> r"
  shows "random_ok (r - 1 / 1000) \<and>
         \<not> ids_distinct (snd (post_movie b (t + 1) (r - 1 / 1000) (snd (post_movie b t r u))))"
proof -
  have "\<lfloor>(r - 1 / 1000) * 1000\<rfloor> = \<lfloor>r * 1000\<rfloor> - 1"
    by (simp add: algebra_simps floor_diff_of_int [of _ 1, simplified])
  then have "generateId (t + 1) (r - 1 / 1000) = generateId t r"
    by (simp add: generateId_def)
  with assms show ?thesis
    by (simp add: ids_distinct_def post_movie_ids random_ok_def)
qed

lemma post_movie_duplicate_id_witness:
  "random_ok (5 / 1000 - 1 / 1000) \<and>
   \<not> ids_distinct (snd (post_movie demo_body 1001 (5 / 1000 - 1 / 1000) (snd (post_movie demo_body 1000 (5 / 1000) demo_user))))"
  using post_movie_duplicate_id [of demo_body "5 / 1000" 1000 demo_user]
  by (simp add: demo_body_def random_ok_def)

subsection \<open>How the path id is read\<close>

lemma movie_matches_int: "movie_matches (NumVal (of_int i)) m \<longleftrightarrow> movie_id m = i"
  by (auto simp: movie_matches_def num_eq_int_def)

text \<open>
  C25. The id as the API prints it: \<^verbatim>\<open>GET /movies/:id\<close> with the decimal spelling
  of an integer \<open>i\<close> answers 200 with the first movie whose id is \<open>i\<close>, and 404 when
  there is none (\<^verbatim>\<open>Number\<close> reads back what the decimal printing wrote).
\<close>

lemma get_movie_printed_id:
  "get_movie (show_int i) u =
     (case List.find (\<lambda>m. movie_id m = i) (movies u) of
        None \<Rightarrow> msg 404 ''Movie not found''
      | Some m \<Rightarrow> \<lparr>status = 200, body = MovieBody m\<rparr>)"
  by (simp add: get_movie_def to_number_show_int movie_matches_int [abs_def])

text \<open>
  C26. A path id that \<^verbatim>\<open>Number\<close> does not map to an integer (not numeric, a fraction,
  \<^verbatim>\<open>Infinity\<close>) matches no movie: \<^verbatim>\<open>GET /movies/:id\<close> answers 404.
\<close>

lemma get_movie_non_integer:
  assumes "\<forall>i. to_number p \<noteq> NumVal (of_int i)"
  shows "get_movie p u = msg 404 ''Movie not found''"
proof -
  have "\<not> movie_matches (to_number p) m" for m
    using assms by (auto simp: movie_matches_def num_eq_int_def)
  then have "List.find (movie_matches (to_number p)) (movies u) = None"
    by (simp add: find_None_iff)
  then show ?thesis by (simp add: get_movie_def)
qed

lemma get_movie_non_integer_witness:
  "get_movie ''abc'' demo_user = msg 404 ''Movie not found''"
proof -
  have "\<forall>i. to_number ''abc'' \<noteq> NumVal (of_int i)"
    by (simp add: number_eval)
  then show ?thesis by (rule get_movie_non_integer)
qed

text \<open>
  C27. Every spelling of an id addresses the movies with that id: when
  \<^verbatim>\<open>Number(p)\<close> is the integer \<open>i\<close> (\<^verbatim>\<open>1005\<close>, \<^verbatim>\<open>0x3ED\<close>,
  \<^verbatim>\<open> 1.005e3 \<close>), GET answers with the first movie whose id is \<open>i\<close>, DELETE removes
  exactly the movies with id \<open>i\<close>, and PUT and PATCH answer 404 exactly when no movie
  has id \<open>i\<close>.
\<close>

lemma any_spelling_same_id:
  assumes "to_number p = NumVal (of_int i)"
  shows "get_movie p u =
           (case List.find (\<lambda>m. movie_id m = i) (movies u) of
              None \<Rightarrow> msg 404 ''Movie not found''
            | Some m \<Rightarrow> \<lparr>status = 200, body = MovieBody m\<rparr>) \<and>
         movies (snd (delete_movie p u)) = filter (\<lambda>m. movie_id m \<noteq> i) (movies u) \<and>
         (status (fst (put_movie p b u)) = 404 \<longleftrightarrow> i \<notin> movie_id ` set (movies u)) \<and>
         (status (fst (patch_movie p b u)) = 404 \<longleftrightarrow> i \<notin> movie_id ` set (movies u))"
proof -
  have m: "movie_matches (to_number p) = (\<lambda>m. movie_id m = i)"
    using assms by (simp add: movie_matches_int [abs_def])
  have "find_idx (\<lambda>m. movie_id m = i) (movies u) = None \<longleftrightarrow> i \<notin> movie_id ` set (movies u)"
    by (auto simp: find_idx_None_iff)
  then show ?thesis
    by (auto simp: get_movie_def delete_movie_def put_movie_def patch_movie_def m Let_def
             split: option.split)
qed

lemma any_spelling_same_id_witness:
  "get_movie ''0x3ED'' demo_user =
     (case List.find (\<lambda>m. movie_id m = 1005) (movies demo_user) of
        None \<Rightarrow> msg 404 ''Movie not found''
      | Some m \<Rightarrow> \<lparr>status = 200, body = MovieBody m\<rparr>) \<and>
   movies (snd (delete_movie ''0x3ED'' demo_user)) = filter (\<lambda>m. movie_id m \<noteq> 1005) (movies demo_user) \<and>
   (status (fst (put_movie ''0x3ED'' None demo_user)) = 404 \<longleftrightarrow> 1005 \<notin> movie_id ` set (movies demo_user)) \<and>
   (status (fst (patch_movie ''0x3ED'' None demo_user)) = 404 \<longleftrightarrow> 1005 \<notin> movie_id ` set (movies demo_user))"
proof -
  have "to_number ''0x3ED'' = NumVal (of_int 1005)"
    by (simp add: number_eval)
  then show ?thesis by (rule any_spelling_same_id)
qed

end
