(* ===== verification/Jwt.thy ===== *)
theory Jwt
  imports Decimal
begin

text \<open>
  The token service: \<^verbatim>\<open>jwt.sign\<close> and \<^verbatim>\<open>jwt.verify\<close> of the
  \<^verbatim>\<open>jsonwebtoken\<close> library, which \<^verbatim>\<open>src/index.js\<close> calls at lines 59 and 72.
  The library is not part of the repository; it is modelled from its documented
  behaviour and from the token service of the spec (section 4.2).
  \<^item> A token is the compact form \<open>header.payload.signature\<close>: three parts joined by
    dots, each an encoding of a byte string. The model encodes bytes in hexadecimal,
    where the library uses base64url; both alphabets are free of dots and spaces,
    which is all the program relies on.
  \<^item> The header says HS256; the payload carries the claims \<open>id\<close> and \<open>username\<close>
    given to \<^verbatim>\<open>jwt.sign\<close>, and \<open>iat\<close> (the clock in seconds) and \<open>exp\<close>
    (\<open>iat\<close> plus the 86400 seconds of \<^verbatim>\<open>expiresIn: '24h'\<close>), written as JSON
    text in this order.
  \<^item> The HMAC-SHA256 signature is modelled by an injective function of key and
    message: what the library's verification assumes of it (no collisions). The model
    says nothing of the secrecy of the key.
  \<^item> Verification fails, in the library's order, on an empty token, on a token that
    does not decode (not three parts, a bad encoding, another header, a payload
    without the claims), on a signature that is not the one of the given secret, and on
    a token whose \<open>exp\<close> is not after the current time in whole seconds.
  The main facts: decoding inverts signing; a token verifies under the secret that
  signed it until its expiry and under no other secret; a token contains no space.
\<close>

record claims =
  claim_id :: int
  claim_username :: string
  claim_iat :: nat
  claim_exp :: nat

datatype jwt_error = JwtMissing | JwtMalformed | InvalidSignature | TokenExpired

subsection \<open>Byte encoding\<close>

definition hex_digit :: "nat \<Rightarrow> char" where
  "hex_digit n = char_of (if n < 10 then 48 + n else 87 + n)"

definition hex_value :: "char \<Rightarrow> nat option" where
  "hex_value c =
     (let k = (of_char c :: nat) in
      if 48 \<le> k \<and> k \<le> 57 then Some (k - 48)
      else if 97 \<le> k \<and> k \<le> 102 then Some (k - 87) else None)"

fun hex_encode :: "string \<Rightarrow> string" where
  "hex_encode [] = []"
| "hex_encode (c # cs) = hex_digit (of_char c div 16) # hex_digit (of_char c mod 16) # hex_encode cs"

fun hex_decode :: "string \<Rightarrow> string option" where
  "hex_decode [] = Some []"
| "hex_decode [c] = None"
| "hex_decode (a # b # cs) =
     (case (hex_value a, hex_value b) of
        (Some x, Some y) \<Rightarrow> map_option (\<lambda>r. char_of (16 * x + y) # r) (hex_decode cs)
      | _ \<Rightarrow> None)"

subsection \<open>Header and payload\<close>

definition jwt_header :: string where
  \<open>jwt_header = ''{"alg":"HS256","typ":"JWT"}''\<close>

text \<open>JSON string escaping of \<^verbatim>\<open>"\<close> and \<^verbatim>\<open>\\\<close>, and reading an escaped string up to its closing quote.\<close>

fun json_escape :: "string \<Rightarrow> string" where
  "json_escape [] = []"
| "json_escape (c # cs) =
     (if c = CHR 0x22 \<or> c = CHR 0x5C then CHR 0x5C # c # json_escape cs else c # json_escape cs)"

fun json_unescape :: "string \<Rightarrow> (string \<times> string) option" where
  "json_unescape [] = None"
| "json_unescape (c # cs) =
     (if c = CHR 0x22 then Some ([], cs)
      else if c = CHR 0x5C then
        (case cs of
           [] \<Rightarrow> None
         | d # ds \<Rightarrow> map_option (\<lambda>(s, r). (d # s, r)) (json_unescape ds))
      else map_option (\<lambda>(s, r). (c # s, r)) (json_unescape cs))"

definition payload_text :: "claims \<Rightarrow> string" where
  \<open>payload_text c =
     ''{"id":'' @ show_int (claim_id c) @ '',"username":"'' @ json_escape (claim_username c) @
     ''","iat":'' @ show_nat (claim_iat c) @ '',"exp":'' @ show_nat (claim_exp c) @ ''}''\<close>

definition parse_payload :: "string \<Rightarrow> claims option" where
  \<open>parse_payload s =
     (case drop_prefix ''{"id":'' s of
        None \<Rightarrow> None
      | Some r1 \<Rightarrow>
          (case (parse_int (takeWhile (\<lambda>c. c \<noteq> CHR '','') r1),
                 drop_prefix '',"username":"'' (dropWhile (\<lambda>c. c \<noteq> CHR '','') r1)) of
             (Some i, Some r2) \<Rightarrow>
               (case json_unescape r2 of
                  None \<Rightarrow> None
                | Some (un, r3) \<Rightarrow>
                    (case drop_prefix '',"iat":'' r3 of
                       None \<Rightarrow> None
                     | Some r4 \<Rightarrow>
                         (case (parse_nat (takeWhile (\<lambda>c. c \<noteq> CHR '','') r4),
                                drop_prefix '',"exp":'' (dropWhile (\<lambda>c. c \<noteq> CHR '','') r4)) of
                            (Some ia, Some r5) \<Rightarrow>
                              (if dropWhile (\<lambda>c. c \<noteq> CHR ''}'') r5 = ''}''
                               then map_option
                                      (\<lambda>e. \<lparr>claim_id = i, claim_username = un, claim_iat = ia, claim_exp = e\<rparr>)
                                      (parse_nat (takeWhile (\<lambda>c. c \<noteq> CHR ''}'') r5))
                               else None)
                          | _ \<Rightarrow> None)))
           | _ \<Rightarrow> None))\<close>

subsection \<open>Signing and verification\<close>

text \<open>HS256 as an injective function of key and message.\<close>

definition hs256 :: "string \<Rightarrow> string \<Rightarrow> string" where
  "hs256 k m = show_nat (length k) @ CHR '':'' # k @ m"

text \<open>\<^verbatim>\<open>jwt.sign({ id, username }, secret, { expiresIn: '24h' })\<close> at clock \<open>now\<close> (milliseconds).\<close>

definition issue_claims :: "nat \<Rightarrow> int \<Rightarrow> string \<Rightarrow> claims" where
  "issue_claims now i un =
     \<lparr>claim_id = i, claim_username = un, claim_iat = now div 1000, claim_exp = now div 1000 + 86400\<rparr>"

definition jwt_sign :: "string \<Rightarrow> claims \<Rightarrow> string" where
  "jwt_sign k c =
     (let h = hex_encode jwt_header; p = hex_encode (payload_text c)
      in h @ ''.'' @ p @ ''.'' @ hex_encode (hs256 k (h @ ''.'' @ p)))"

text \<open>The three parts of a token: the signed text, the claims, the signature bytes.\<close>

definition jwt_decode :: "string \<Rightarrow> (string \<times> claims \<times> string) option" where
  "jwt_decode tok =
     (case split_on CHR ''.'' tok of
        [h, p, s] \<Rightarrow>
          (case (hex_decode h, hex_decode p, hex_decode s) of
             (Some ht, Some pt, Some st) \<Rightarrow>
               if ht = jwt_header then map_option (\<lambda>c. (h @ ''.'' @ p, c, st)) (parse_payload pt)
               else None
           | _ \<Rightarrow> None)
      | _ \<Rightarrow> None)"

text \<open>\<^verbatim>\<open>jwt.verify(token, secret)\<close> at clock \<open>now\<close> (milliseconds).\<close>

definition jwt_verify :: "string \<Rightarrow> nat \<Rightarrow> string \<Rightarrow> jwt_error + claims" where
  "jwt_verify k now tok =
     (if tok = [] then Inl JwtMissing
      else case jwt_decode tok of
        None \<Rightarrow> Inl JwtMalformed
      | Some (input, c, sig) \<Rightarrow>
          if sig \<noteq> hs256 k input then Inl InvalidSignature
          else if now div 1000 \<ge> claim_exp c then Inl TokenExpired
          else Inr c)"

subsection \<open>Encoding round trips\<close>

lemma of_char_less_256: "(of_char c :: nat) < 256"
  by (metis of_char_mod_256 mod_less_divisor zero_less_numeral)

lemma of_char_div_16: "(of_char c :: nat) div 16 < 16"
  using of_char_less_256 [of c] by (intro less_mult_imp_div_less) simp

lemma hex_value_hex_digit [simp]: "n < 16 \<Longrightarrow> hex_value (hex_digit n) = Some n"
  by (simp add: hex_value_def hex_digit_def Let_def)

lemma hex_decode_encode [simp]: "hex_decode (hex_encode s) = Some s"
proof (induction s)
  case Nil
  then show ?case by simp
next
  case (Cons c s)
  have lt: "(of_char c :: nat) div 16 < 16" "(of_char c :: nat) mod 16 < 16"
    using of_char_div_16 [of c] by simp_all
  have "char_of (16 * ((of_char c :: nat) div 16) + of_char c mod 16) = c"
    by simp
  with Cons.IH lt show ?case by simp
qed

lemma hex_encode_chars: "x \<in> set (hex_encode s) \<Longrightarrow> hex_value x \<noteq> None"
proof (induction s)
  case Nil
  then show ?case by simp
next
  case (Cons c s)
  have lt: "(of_char c :: nat) div 16 < 16" "(of_char c :: nat) mod 16 < 16"
    using of_char_div_16 [of c] by simp_all
  with Cons show ?case by auto
qed

lemma hex_encode_no_dot [simp]: "CHR ''.'' \<notin> set (hex_encode s)"
  using hex_encode_chars by (force simp: hex_value_def)

lemma hex_encode_no_space [simp]: "CHR '' '' \<notin> set (hex_encode s)"
  using hex_encode_chars by (force simp: hex_value_def)

lemma json_unescape_escape [simp]: "json_unescape (json_escape s @ CHR 0x22 # r) = Some (s, r)"
  by (induction s) auto

lemma parse_payload_text [simp]: "parse_payload (payload_text c) = Some c"
proof -
  have no_comma: "\<forall>x\<in>set (show_int (claim_id c)). x \<noteq> CHR '',''"
    "\<forall>x\<in>set (show_nat (claim_iat c)). x \<noteq> CHR '',''"
    "\<forall>x\<in>set (show_nat (claim_exp c)). x \<noteq> CHR ''}''"
    using show_int_no_char [of "CHR '',''" "claim_id c"] show_nat_no_char [of "CHR '',''" "claim_iat c"]
      show_nat_no_char [of "CHR ''}''" "claim_exp c"]
    by (auto simp: is_digit_def)
  then show ?thesis
    by (simp add: parse_payload_def payload_text_def)
qed

subsection \<open>Facts on signing and verification\<close>

lemma jwt_decode_sign:
  "jwt_decode (jwt_sign k c) =
     Some (hex_encode jwt_header @ ''.'' @ hex_encode (payload_text c), c,
           hs256 k (hex_encode jwt_header @ ''.'' @ hex_encode (payload_text c)))"
  by (simp add: jwt_decode_def jwt_sign_def Let_def)

lemma hs256_inj:
  assumes "hs256 k m = hs256 k' m'"
  shows "k = k' \<and> m = m'"
proof -
  let ?P = "\<lambda>x. x \<noteq> CHR '':''"
  have nc: "\<forall>x\<in>set (show_nat n). ?P x" for n
    using show_nat_no_char [of "CHR '':''" n] by (auto simp: is_digit_def)
  from assms have "takeWhile ?P (hs256 k m) = takeWhile ?P (hs256 k' m')" by simp
  with nc have "show_nat (length k) = show_nat (length k')" by (simp add: hs256_def)
  then have len: "length k = length k'" by (rule show_nat_inj)
  from assms have "dropWhile ?P (hs256 k m) = dropWhile ?P (hs256 k' m')" by simp
  with nc have "k @ m = k' @ m'" by (simp add: hs256_def)
  with len show ?thesis by simp
qed

lemma jwt_sign_nonempty [simp]: "jwt_sign k c \<noteq> []"
  by (simp add: jwt_sign_def jwt_header_def Let_def)

lemma jwt_verify_sign:
  "jwt_verify k now (jwt_sign k c) = (if claim_exp c \<le> now div 1000 then Inl TokenExpired else Inr c)"
  by (simp add: jwt_verify_def jwt_decode_sign)

lemma jwt_verify_other_key:
  assumes "k' \<noteq> k"
  shows "jwt_verify k' now (jwt_sign k c) = Inl InvalidSignature"
proof -
  have "hs256 k m \<noteq> hs256 k' m" for m
    using assms hs256_inj by blast
  then show ?thesis by (simp add: jwt_verify_def jwt_decode_sign)
qed

lemma jwt_sign_no_space: "CHR '' '' \<notin> set (jwt_sign k c)"
  by (simp add: jwt_sign_def Let_def)


text \<open>
  C12. A token issued by the login route at clock \<open>t0\<close> verifies under the same
  secret at clock \<open>t1\<close>, giving back the claims it was issued with, exactly while
  \<open>t1\<close> in whole seconds is before \<open>t0\<close> in whole seconds plus 86400; from then on
  verification fails with \<open>TokenExpired\<close>.
\<close>

lemma jwt_issued_valid:
  "jwt_verify k t1 (jwt_sign k (issue_claims t0 i un)) =
     (if t1 div 1000 < t0 div 1000 + 86400 then Inr (issue_claims t0 i un) else Inl TokenExpired)"
  by (simp add: jwt_verify_sign issue_claims_def not_le)

end
