(* ===== verification/Auth.thy ===== *)
theory Auth
  imports Credentials Jwt
begin

text \<open>
  Authentication in \<^verbatim>\<open>src/index.js\<close>: the login
  route (lines 50--61) that turns a name and a password into a token, and the
  middleware \<^verbatim>\<open>authenticateToken\<close> (lines 67--82) that every \<^verbatim>\<open>/movies\<close>
  route runs first. The middleware either ends the request with a 401 or 403
  response (\<^const>\<open>Inl\<close>) or passes it on with \<^verbatim>\<open>req.user\<close> bound to an entry
  of the user table, given here by its position (\<^const>\<open>Inr\<close>).
  The lemmas give each outcome of the two routes, how the header is read (the word
  before the first space is never looked at), and that a token the login route
  issues opens the guard, for the user who logged in, for 24 hours and no longer.
\<close>

text \<open>\<^verbatim>\<open>POST /login\<close>\<close>

definition login :: "string \<Rightarrow> nat \<Rightarrow> json option \<Rightarrow> user list \<Rightarrow> response" where
  "login k now b us =
     (let un = body_field b ''username''; pw = body_field b ''password'' in
      if \<not> js_truthy un \<or> \<not> js_truthy pw then msg 400 ''username and password required''
      else
        (case find_by_credentials un pw us of
           None \<Rightarrow> msg 401 ''Invalid credentials''
         | Some u \<Rightarrow>
             \<lparr>status = 200, body = TokenBody (jwt_sign k (issue_claims now (user_id u) (username u)))\<rparr>))"

text \<open>
  \<^verbatim>\<open>const token = authHeader && authHeader.split(' ')[1]; if (!token) ...\<close>:
  the second space-separated word of the header, when it is there and not empty.
\<close>

definition bearer_token :: "string option \<Rightarrow> string option" where
  "bearer_token h =
     (case h of
        None \<Rightarrow> None
      | Some s \<Rightarrow>
          if s = [] then None
          else (case split_on CHR '' '' s of
                  _ # t # _ \<Rightarrow> if t = [] then None else Some t
                | _ \<Rightarrow> None))"

definition authenticateToken :: "string \<Rightarrow> nat \<Rightarrow> string option \<Rightarrow> user list \<Rightarrow> response + nat" where
  "authenticateToken k now h us =
     (case bearer_token h of
        None \<Rightarrow> Inl (msg 401 ''Missing token'')
      | Some tok \<Rightarrow>
          (case jwt_verify k now tok of
             Inl _ \<Rightarrow> Inl (msg 403 ''Invalid or expired token'')
           | Inr c \<Rightarrow>
               (case find_by_id (claim_id c) us of
                  None \<Rightarrow> Inl (msg 401 ''User not found'')
                | Some i \<Rightarrow> Inr i)))"

text \<open>The header \<^verbatim>\<open>Authorization: Bearer <token>\<close> a client sends (spec, section 6).\<close>

definition bearer_header :: "string \<Rightarrow> string option" where
  "bearer_header t = Some (''Bearer '' @ t)"

text \<open>The body \<^verbatim>\<open>{ "username": un, "password": pw }\<close> with two strings.\<close>

definition cred_body :: "string \<Rightarrow> string \<Rightarrow> json option" where
  "cred_body un pw = Some (JObj [(''username'', JStr un), (''password'', JStr pw)])"

subsection \<open>Reading the header\<close>

lemma bearer_token_None [simp]: "bearer_token None = None"
  by (simp add: bearer_token_def)

lemma bearer_token_words:
  assumes "CHR '' '' \<notin> set w"
  shows "bearer_token (Some (w @ CHR '' '' # t)) =
           (case split_on CHR '' '' t of t1 # _ \<Rightarrow> if t1 = [] then None else Some t1)"
  using assms split_on_nonempty [of "CHR '' ''" t]
  by (auto simp: bearer_token_def split: list.splits)

lemma bearer_token_single:
  "CHR '' '' \<notin> set w \<Longrightarrow> CHR '' '' \<notin> set t \<Longrightarrow>
   bearer_token (Some (w @ CHR '' '' # t)) = (if t = [] then None else Some t)"
  by (simp add: bearer_token_words)

lemma bearer_token_one_word: "CHR '' '' \<notin> set s \<Longrightarrow> bearer_token (Some s) = None"
  by (simp add: bearer_token_def)

lemma bearer_token_Bearer:
  "CHR '' '' \<notin> set t \<Longrightarrow> t \<noteq> [] \<Longrightarrow> bearer_token (bearer_header t) = Some t"
  by (simp add: bearer_header_def bearer_token_def split_on_def split_acc_free)

lemma bearer_header_words: "Some (''Bearer'' @ CHR '' '' # t) = bearer_header t"
  by (simp add: bearer_header_def)

text \<open>The guard on a token the login route issued, under the secret that signed it.\<close>

lemma authenticate_issued:
  "authenticateToken k t1 (bearer_header (jwt_sign k (issue_claims t0 i un))) us =
     (if t1 div 1000 < t0 div 1000 + 86400
      then (case find_by_id i us of None \<Rightarrow> Inl (msg 401 ''User not found'') | Some j \<Rightarrow> Inr j)
      else Inl (msg 403 ''Invalid or expired token''))"
proof -
  have "bearer_token (bearer_header (jwt_sign k (issue_claims t0 i un))) =
          Some (jwt_sign k (issue_claims t0 i un))"
    by (rule bearer_token_Bearer) (simp_all add: jwt_sign_no_space)
  then show ?thesis by (simp add: authenticateToken_def jwt_verify_sign issue_claims_def)
qed

lemma find_by_credentials_idx:
  "find_idx (\<lambda>u. username u = un \<and> password u = pw) us = Some i \<Longrightarrow>
   find_by_credentials (Some (JStr un)) (Some (JStr pw)) us = Some (us ! i)"
proof -
  have "List.find (\<lambda>u. un = username u \<and> pw = password u) us =
        List.find (\<lambda>u. username u = un \<and> password u = pw) us"
    by (rule find_cong) auto
  then show "find_idx (\<lambda>u. username u = un \<and> password u = pw) us = Some i \<Longrightarrow> ?thesis"
    by (simp add: find_by_credentials_def find_idx_Some_find)
qed

lemma login_token_issued:
  assumes "login k now b us = \<lparr>status = 200, body = TokenBody tok\<rparr>"
  shows "\<exists>i<length us. body_field b ''username'' = Some (JStr (username (us ! i))) \<and>
           body_field b ''password'' = Some (JStr (password (us ! i))) \<and>
           tok = jwt_sign k (issue_claims now (user_id (us ! i)) (username (us ! i)))"
proof -
  from assms obtain u where
    u: "find_by_credentials (body_field b ''username'') (body_field b ''password'') us = Some u" and
    tok: "tok = jwt_sign k (issue_claims now (user_id u) (username u))"
    by (auto simp: login_def msg_def Let_def split: if_splits option.splits)
  from u obtain i where "i < length us" "u = us ! i"
    "body_field b ''username'' = Some (JStr (username (us ! i)))"
    "body_field b ''password'' = Some (JStr (password (us ! i)))"
    by (auto simp: find_by_credentials_def find_Some_iff)
  with tok show ?thesis by blast
qed

lemma demo_token_guard [simp]:
  "authenticateToken ''fallback_secret_key'' 5000
     (bearer_header (jwt_sign ''fallback_secret_key'' (issue_claims 1000 2 ''alice''))) users_init = Inr 1"
proof -
  have "find_by_id 2 users_init = Some 1"
    by (simp add: find_by_id_def users_init_def)
  then show ?thesis by (simp add: authenticate_issued)
qed

subsection \<open>The guard\<close>

text \<open>
  C9. A request with no \<^verbatim>\<open>Authorization\<close> header, with a header of a single
  word, or with two spaces after the first word, is rejected with 401
  \<^verbatim>\<open>Missing token\<close>.
\<close>

lemma authenticate_missing_token:
  assumes "h = None \<or> (\<exists>s. h = Some s \<and> CHR '' '' \<notin> set s) \<or>
           (\<exists>w r. h = Some (w @ CHR '' '' # CHR '' '' # r) \<and> CHR '' '' \<notin> set w)"
  shows "authenticateToken k now h us = Inl (msg 401 ''Missing token'')"
proof -
  from assms have "bearer_token h = None"
    by (auto simp: bearer_token_one_word bearer_token_words split_on_def)
  then show ?thesis by (simp add: authenticateToken_def)
qed

lemma authenticate_missing_token_witness:
  "authenticateToken ''fallback_secret_key'' 0 (Some (''Bearer'' @ CHR '' '' # CHR '' '' # ''abc'')) users_init =
     Inl (msg 401 ''Missing token'')"
proof -
  have "\<exists>w r. Some (''Bearer'' @ CHR '' '' # CHR '' '' # ''abc'') = Some (w @ CHR '' '' # CHR '' '' # r) \<and>
          CHR '' '' \<notin> set w"
    by (rule exI [of _ "''Bearer''"], rule exI [of _ "''abc''"]) simp
  then show ?thesis by (intro authenticate_missing_token) blast
qed

text \<open>
  C10. A token that is not three dot-separated parts (one part, two, four or more)
  is rejected with 403 \<^verbatim>\<open>Invalid or expired token\<close>.
\<close>

lemma authenticate_malformed:
  assumes "CHR '' '' \<notin> set w" and "CHR '' '' \<notin> set t" and "t \<noteq> []"
    and "length (split_on CHR ''.'' t) \<noteq> 3"
  shows "authenticateToken k now (Some (w @ CHR '' '' # t)) us = Inl (msg 403 ''Invalid or expired token'')"
proof -
  have "jwt_decode t = None"
    using assms(4) by (auto simp: jwt_decode_def split: list.split)
  with assms(1-3) show ?thesis
    by (simp add: authenticateToken_def bearer_token_single jwt_verify_def)
qed

lemma authenticate_malformed_witness:
  "authenticateToken ''fallback_secret_key'' 0 (Some (''Bearer'' @ CHR '' '' # ''ab.cd'')) users_init =
     Inl (msg 403 ''Invalid or expired token'') \<and>
   authenticateToken ''fallback_secret_key'' 0 (Some (''Bearer'' @ CHR '' '' # ''a.b.c.d'')) users_init =
     Inl (msg 403 ''Invalid or expired token'')"
  by (intro conjI authenticate_malformed) (simp_all add: split_on_def)

text \<open>
  C11. A token signed with another secret than the server's is rejected with 403,
  whatever its claims.
\<close>

lemma authenticate_foreign_key:
  assumes "k' \<noteq> k" and "CHR '' '' \<notin> set w"
  shows "authenticateToken k now (Some (w @ CHR '' '' # jwt_sign k' c)) us =
           Inl (msg 403 ''Invalid or expired token'')"
  using assms by (simp add: authenticateToken_def bearer_token_single jwt_sign_no_space jwt_verify_other_key)

lemma authenticate_foreign_key_witness:
  "authenticateToken ''fallback_secret_key'' 5000
     (Some (''Bearer'' @ CHR '' '' # jwt_sign ''guessed'' (issue_claims 1000 2 ''alice''))) users_init =
     Inl (msg 403 ''Invalid or expired token'')"
  by (rule authenticate_foreign_key) simp_all

text \<open>
  C13. When the guard lets a request through, the header carries a token that
  verifies under the secret, and the bound user is the first entry of the table whose
  id is the token's \<open>id\<close> claim.
\<close>

lemma authenticate_binds_user:
  assumes "authenticateToken k now h us = Inr i"
  shows "\<exists>tok c. bearer_token h = Some tok \<and> jwt_verify k now tok = Inr c \<and> i < length us \<and>
           user_id (us ! i) = claim_id c \<and> (\<forall>j<i. user_id (us ! j) \<noteq> claim_id c)"
  using assms
  by (auto simp: authenticateToken_def find_by_id_def find_idx_Some_iff
           split: option.splits sum.splits)

lemma authenticate_binds_user_witness:
  "\<exists>tok c. bearer_token (bearer_header (jwt_sign ''fallback_secret_key'' (issue_claims 1000 2 ''alice''))) = Some tok \<and>
     jwt_verify ''fallback_secret_key'' 5000 tok = Inr c \<and> 1 < length users_init \<and>
     user_id (users_init ! 1) = claim_id c \<and> (\<forall>j<1. user_id (users_init ! j) \<noteq> claim_id c)"
  by (rule authenticate_binds_user) simp

text \<open>
  C15. The word before the first space of the header is never examined: any
  scheme, \<^verbatim>\<open>Basic\<close> or none at all, is treated as \<^verbatim>\<open>Bearer\<close>.
\<close>

lemma authenticate_scheme_ignored:
  assumes "CHR '' '' \<notin> set w" and "CHR '' '' \<notin> set w'"
  shows "authenticateToken k now (Some (w @ CHR '' '' # t)) us =
         authenticateToken k now (Some (w' @ CHR '' '' # t)) us"
  using assms by (simp add: authenticateToken_def bearer_token_words)

lemma authenticate_scheme_ignored_witness:
  "authenticateToken ''fallback_secret_key'' 5000
     (Some (''Basic'' @ CHR '' '' # jwt_sign ''fallback_secret_key'' (issue_claims 1000 2 ''alice''))) users_init = Inr 1"
proof -
  have "authenticateToken ''fallback_secret_key'' 5000
          (Some (''Basic'' @ CHR '' '' # jwt_sign ''fallback_secret_key'' (issue_claims 1000 2 ''alice''))) users_init =
        authenticateToken ''fallback_secret_key'' 5000
          (Some (''Bearer'' @ CHR '' '' # jwt_sign ''fallback_secret_key'' (issue_claims 1000 2 ''alice''))) users_init"
    by (rule authenticate_scheme_ignored) simp_all
  then show ?thesis by (simp only: bearer_header_words demo_token_guard)
qed

subsection \<open>The login route\<close>

text \<open>
  C16. Credentials that match an entry of the table, both non-empty, give 200 and a
  token signed with the secret for the id and name of the first matching entry,
  issued at the current clock.
\<close>

lemma login_success:
  assumes "un \<noteq> []" and "pw \<noteq> []"
    and "find_idx (\<lambda>u. username u = un \<and> password u = pw) us = Some i"
  shows "login k now (cred_body un pw) us =
     \<lparr>status = 200, body = TokenBody (jwt_sign k (issue_claims now (user_id (us ! i)) (username (us ! i))))\<rparr>"
  using assms by (simp add: login_def cred_body_def find_by_credentials_idx)

lemma login_success_witness:
  "login ''fallback_secret_key'' 1000 (cred_body ''alice'' ''123'') users_init =
     \<lparr>status = 200, body = TokenBody (jwt_sign ''fallback_secret_key'' (issue_claims 1000 2 ''alice''))\<rparr>"
proof -
  have h: "find_idx (\<lambda>u. username u = ''alice'' \<and> password u = ''123'') users_init = Some 1"
    by (simp add: users_init_def)
  show ?thesis using login_success [OF _ _ h] by (simp add: users_init_def)
qed

text \<open>C17. A body whose name or password is missing or falsy gives 400.\<close>

lemma login_bad_request:
  assumes "\<not> js_truthy (body_field b ''username'') \<or> \<not> js_truthy (body_field b ''password'')"
  shows "login k now b us = msg 400 ''username and password required''"
  using assms by (simp add: login_def)

lemma login_bad_request_witness:
  "login ''fallback_secret_key'' 1000 (cred_body ''alice'' []) users_init = msg 400 ''username and password required''"
  by (rule login_bad_request) (simp add: cred_body_def)

text \<open>
  C18. Truthy credentials that match no entry, compared by strict equality with
  the stored strings (so a number or any non-string never matches), give 401.
\<close>

lemma login_bad_credentials:
  assumes "js_truthy (body_field b ''username'')" and "js_truthy (body_field b ''password'')"
    and "\<forall>u\<in>set us. body_field b ''username'' \<noteq> Some (JStr (username u)) \<or>
                     body_field b ''password'' \<noteq> Some (JStr (password u))"
  shows "login k now b us = msg 401 ''Invalid credentials''"
proof -
  from assms(3) have "find_by_credentials (body_field b ''username'') (body_field b ''password'') us = None"
    by (auto simp: find_by_credentials_def find_None_iff)
  with assms(1,2) show ?thesis by (simp add: login_def)
qed

lemma login_bad_credentials_witness:
  "login ''fallback_secret_key'' 1000 (Some (JObj [(''username'', JStr ''alice''), (''password'', JNum 123)])) users_init =
     msg 401 ''Invalid credentials''"
  by (rule login_bad_credentials) (simp_all add: users_init_def)

end
