(* ===== verification/Server.thy ===== *)
theory Server
  imports Watchlist Auth
begin

text \<open>
  The route layer and the server as a whole. Express dispatches a request to the
  first registered route whose path pattern and method match (\<^verbatim>\<open>src/index.js\<close>
  lines 22, 50, 98, 114, 134, 143, 162, 177), and otherwise to the catch-all 404
  (lines 190--192). Path patterns match case-insensitively and allow one trailing
  slash; the \<^verbatim>\<open>:id\<close> parameter is a nonempty segment, percent-decoded when the
  path matches, before the method is looked at, so a bad escape ends any request on
  \<^verbatim>\<open>/movies/:id\<close> with a 400 from Express's error handler. In front of the router,
  \<^verbatim>\<open>express.json()\<close> may reject the body (400, 413, 415) and \<^verbatim>\<open>cors()\<close> answers
  \<^verbatim>\<open>OPTIONS\<close> with 204; \<^verbatim>\<open>HEAD\<close> is served by the \<^verbatim>\<open>GET\<close> routes without body.
  The state of the server is the user table; a request is handled with the clock
  and the random draw of its moment as inputs, and the handler's updated user is
  written back at the position the guard bound. The reachable states are those of
  runs from the start-up table under any requests and any valid random draws.
\<close>

datatype http_method = GET | HEAD | POST | PUT | PATCH | DELETE | OPTIONS | OtherMethod string

text \<open>
  What \<^verbatim>\<open>express.json()\<close> (line 19) makes of a JSON body it cannot accept: text that
  is not JSON, or not an object or array in its default strict mode (400); more than
  its 100kb limit (413); a charset other than UTF-8 (415). The parser itself is not
  modelled: a request carries the parsed body, or the parser's failure.
\<close>

datatype body_error = InvalidJson | BodyTooLarge | UnsupportedCharset

record request =
  req_method :: http_method
  req_path :: string
  req_authorization :: "string option"
  req_query_status :: "json option"
  req_body :: "json option"
  req_body_error :: "body_error option"

text \<open>What the runtime supplies to a request: \<^verbatim>\<open>Date.now()\<close> and \<^verbatim>\<open>Math.random()\<close>.\<close>

record runtime =
  now :: nat
  random :: rat

record server_state =
  users :: "user list"

datatype route =
    RootPage
  | LoginRoute
  | ListMovies
  | CreateMovie
  | MovieById http_method string
  | NoRoute

subsection \<open>Routing\<close>

definition lower_ascii :: "char \<Rightarrow> char" where
  "lower_ascii c = (let k = (of_char c :: nat) in if 65 \<le> k \<and> k \<le> 90 then char_of (k + 32) else c)"

definition seg_eq :: "string \<Rightarrow> string \<Rightarrow> bool" where
  "seg_eq a b \<longleftrightarrow> map lower_ascii a = map lower_ascii b"

text \<open>
  The segments of a path after its leading slash, one trailing slash dropped after a
  nonempty path (\<^verbatim>\<open>/movies/\<close> matches \<^verbatim>\<open>/movies\<close>; \<^verbatim>\<open>//\<close> does not match \<^verbatim>\<open>/\<close>).
\<close>

definition path_segments :: "string \<Rightarrow> string list option" where
  "path_segments p =
     (case p of
        c # r \<Rightarrow>
          if c = CHR ''/''
          then Some (split_on CHR ''/'' (if r \<noteq> [] \<and> last r = CHR ''/'' \<and> butlast r \<noteq> [] then butlast r else r))
          else None
      | [] \<Rightarrow> None)"

definition route_of :: "http_method \<Rightarrow> string \<Rightarrow> route" where
  "route_of m p =
     (case path_segments p of
        Some [s] \<Rightarrow>
          if s = [] \<and> m = GET then RootPage
          else if seg_eq s ''login'' \<and> m = POST then LoginRoute
          else if seg_eq s ''movies'' \<and> m = GET then ListMovies
          else if seg_eq s ''movies'' \<and> m = POST then CreateMovie
          else NoRoute
      | Some [s, i] \<Rightarrow> if seg_eq s ''movies'' \<and> i \<noteq> [] then MovieById m i else NoRoute
      | _ \<Rightarrow> NoRoute)"

text \<open>
  \<^verbatim>\<open>decodeURIComponent\<close> on the parameter (the Decode operation of the language
  definition): an escape \<^verbatim>\<open>%XX\<close> gives a byte; a byte below 128 is a character; a
  larger one must start a well-formed UTF-8 sequence (Unicode, Table 3-7: no overlong
  form, no surrogate, nothing above U+10FFFF) whose continuation bytes are escapes too,
  and anything else throws \<^verbatim>\<open>URIError\<close> (\<^const>\<open>None\<close>). The characters of a decoded
  sequence are kept as its UTF-8 bytes.
\<close>

definition hex_byte :: "char \<Rightarrow> char \<Rightarrow> nat option" where
  "hex_byte a b =
     (case (radix_digit 16 a, radix_digit 16 b) of (Some x, Some y) \<Rightarrow> Some (16 * x + y) | _ \<Rightarrow> None)"

definition utf8_seq_len :: "nat \<Rightarrow> nat" where
  "utf8_seq_len x =
     (if x < 128 then 1 else if x < 192 then 0 else if x < 224 then 2 else if x < 240 then 3
      else if x < 248 then 4 else 0)"

definition utf8_cont :: "nat \<Rightarrow> bool" where
  "utf8_cont x \<longleftrightarrow> 128 \<le> x \<and> x < 192"

definition in_range :: "nat \<Rightarrow> nat \<Rightarrow> nat \<Rightarrow> bool" where
  "in_range lo hi x \<longleftrightarrow> lo \<le> x \<and> x \<le> hi"

text \<open>The bytes of a sequence of 2, 3 or 4 bytes that encodes a code point.\<close>

fun utf8_well_formed :: "nat list \<Rightarrow> bool" where
  "utf8_well_formed [b0, b1] \<longleftrightarrow> in_range 194 223 b0 \<and> utf8_cont b1"
| "utf8_well_formed [b0, b1, b2] \<longleftrightarrow>
     ((b0 = 224 \<and> in_range 160 191 b1) \<or> (in_range 225 236 b0 \<and> utf8_cont b1) \<or>
      (b0 = 237 \<and> in_range 128 159 b1) \<or> (in_range 238 239 b0 \<and> utf8_cont b1)) \<and> utf8_cont b2"
| "utf8_well_formed [b0, b1, b2, b3] \<longleftrightarrow>
     ((b0 = 240 \<and> in_range 144 191 b1) \<or> (in_range 241 243 b0 \<and> utf8_cont b1) \<or>
      (b0 = 244 \<and> in_range 128 143 b1)) \<and> utf8_cont b2 \<and> utf8_cont b3"
| "utf8_well_formed _ \<longleftrightarrow> False"

text \<open>
  The decoder with the continuation bytes still needed and the bytes of the pending
  sequence.
\<close>

fun pct_dec :: "nat \<Rightarrow> nat list \<Rightarrow> string \<Rightarrow> string option" where
  "pct_dec need buf [] = (if need = 0 then Some [] else None)"
| "pct_dec need buf (c # a # b # rest) =
     (if c = CHR ''%'' then
        (case hex_byte a b of
           None \<Rightarrow> None
         | Some x \<Rightarrow>
             if need = 0 then
               (if x < 128 then map_option (Cons (char_of x)) (pct_dec 0 [] rest)
                else if utf8_seq_len x \<ge> 2 then pct_dec (utf8_seq_len x - 1) [x] rest
                else None)
             else if \<not> utf8_cont x then None
             else if need = 1 then
               (if utf8_well_formed (buf @ [x])
                then map_option (\<lambda>r. map char_of (buf @ [x]) @ r) (pct_dec 0 [] rest)
                else None)
             else pct_dec (need - 1) (buf @ [x]) rest)
      else if need = 0 then map_option (Cons c) (pct_dec 0 [] (a # b # rest))
      else None)"
| "pct_dec need buf (c # cs) =
     (if c = CHR ''%'' \<or> need \<noteq> 0 then None else map_option (Cons c) (pct_dec 0 [] cs))"

definition pct_decode :: "string \<Rightarrow> string option" where
  "pct_decode s = pct_dec 0 [] s"

subsection \<open>Handling a request\<close>

text \<open>The handler of an authenticated movie route, on the bound user.\<close>

definition movie_route :: "route \<Rightarrow> json option \<Rightarrow> json option \<Rightarrow> runtime \<Rightarrow> user \<Rightarrow> response \<times> user" where
  "movie_route rt st b e u =
     (case rt of
        ListMovies \<Rightarrow> (get_movies st u, u)
      | CreateMovie \<Rightarrow> post_movie b (now e) (random e) u
      | MovieById GET p \<Rightarrow> (get_movie p u, u)
      | MovieById PUT p \<Rightarrow> put_movie p b u
      | MovieById PATCH p \<Rightarrow> patch_movie p b u
      | MovieById DELETE p \<Rightarrow> delete_movie p u
      | _ \<Rightarrow> (msg 404 ''Endpoint not found'', u))"

text \<open>\<^verbatim>\<open>authenticateToken\<close>, then the handler, its result written back into the table.\<close>

definition guarded :: "string \<Rightarrow> runtime \<Rightarrow> request \<Rightarrow> route \<Rightarrow> server_state \<Rightarrow> response \<times> server_state" where
  "guarded k e r rt s =
     (case authenticateToken k (now e) (req_authorization r) (users s) of
        Inl resp \<Rightarrow> (resp, s)
      | Inr i \<Rightarrow>
          (let (resp, u') = movie_route rt (req_query_status r) (req_body r) e (users s ! i)
           in (resp, s\<lparr>users := (users s)[i := u']\<rparr>)))"

text \<open>
  A malformed escape in \<^verbatim>\<open>:id\<close> makes the router's \<^verbatim>\<open>decodeURIComponent\<close>
  throw; the app has no error handler, so Express's default one answers.
\<close>

definition uri_error_response :: response where
  "uri_error_response = \<lparr>status = 400, body = ErrorPage ''URIError: Failed to decode param''\<rparr>"

definition route_request :: "string \<Rightarrow> runtime \<Rightarrow> request \<Rightarrow> server_state \<Rightarrow> response \<times> server_state" where
  "route_request k e r s =
     (case route_of (req_method r) (req_path r) of
        RootPage \<Rightarrow> (\<lparr>status = 200, body = LoginPage\<rparr>, s)
      | LoginRoute \<Rightarrow> (login k (now e) (req_body r) (users s), s)
      | ListMovies \<Rightarrow> guarded k e r ListMovies s
      | CreateMovie \<Rightarrow> guarded k e r CreateMovie s
      | MovieById m p \<Rightarrow>
          (case pct_decode p of
             None \<Rightarrow> (uri_error_response, s)
           | Some p' \<Rightarrow>
               if m \<in> {GET, PUT, PATCH, DELETE} then guarded k e r (MovieById m p') s
               else (msg 404 ''Endpoint not found'', s))
      | NoRoute \<Rightarrow> (msg 404 ''Endpoint not found'', s))"

text \<open>
  Express's default error handler answers an error with an HTML page and the error's
  status; for a \<^verbatim>\<open>HEAD\<close> request Node sends the status and headers without a body.
\<close>

definition body_error_response :: "body_error \<Rightarrow> response" where
  "body_error_response err =
     (case err of
        InvalidJson \<Rightarrow> \<lparr>status = 400, body = ErrorPage ''SyntaxError''\<rparr>
      | BodyTooLarge \<Rightarrow> \<lparr>status = 413, body = ErrorPage ''PayloadTooLargeError: request entity too large''\<rparr>
      | UnsupportedCharset \<Rightarrow> \<lparr>status = 415, body = ErrorPage ''UnsupportedMediaTypeError: unsupported charset''\<rparr>)"

definition head_strip :: "http_method \<Rightarrow> response \<Rightarrow> response" where
  "head_strip m resp = (if m = HEAD then resp\<lparr>body := NoContent\<rparr> else resp)"

text \<open>
  The application (lines 18--192): \<^verbatim>\<open>express.json()\<close> first, whose failure ends the
  request; then \<^verbatim>\<open>cors()\<close> (line 20), which answers every \<^verbatim>\<open>OPTIONS\<close> request
  itself with 204 (its default \<^verbatim>\<open>preflightContinue: false\<close>); then the router, which
  serves a \<^verbatim>\<open>HEAD\<close> request with the \<^verbatim>\<open>GET\<close> route of its path.
\<close>

definition handle :: "string \<Rightarrow> runtime \<Rightarrow> request \<Rightarrow> server_state \<Rightarrow> response \<times> server_state" where
  "handle k e r s =
     (case req_body_error r of
        Some err \<Rightarrow> (head_strip (req_method r) (body_error_response err), s)
      | None \<Rightarrow>
          if req_method r = OPTIONS then (\<lparr>status = 204, body = NoContent\<rparr>, s)
          else if req_method r = HEAD then apfst (head_strip HEAD) (route_request k e (r\<lparr>req_method := GET\<rparr>) s)
          else route_request k e r s)"

subsection \<open>Runs and reachable states\<close>

definition init_state :: server_state where
  "init_state = \<lparr>users = users_init\<rparr>"

inductive server_step :: "string \<Rightarrow> server_state \<Rightarrow> server_state \<Rightarrow> bool" for k where
  handle_step: "random_ok (random e) \<Longrightarrow> server_step k s (snd (handle k e r s))"

inductive reachable :: "string \<Rightarrow> server_state \<Rightarrow> bool" for k where
  start: "reachable k init_state"
| step: "reachable k s \<Longrightarrow> server_step k s s' \<Longrightarrow> reachable k s'"

text \<open>A sequence of requests, each with its runtime inputs, handled in order.\<close>

fun run :: "string \<Rightarrow> (runtime \<times> request) list \<Rightarrow> server_state \<Rightarrow> response list \<times> server_state" where
  "run k [] s = ([], s)"
| "run k ((e, r) # rs) s =
     (let (resp, s') = handle k e r s; (resps, s'') = run k rs s' in (resp # resps, s''))"

text \<open>
  The identity of a user (id, name, password): what no handler may change.
  The movies a response carries: what a client reads from it.
\<close>

definition user_key :: "user \<Rightarrow> int \<times> string \<times> string" where
  "user_key u = (user_id u, username u, password u)"

definition response_movies :: "payload \<Rightarrow> movie list" where
  "response_movies p = (case p of MovieBody m \<Rightarrow> [m] | MovieList ms \<Rightarrow> ms | _ \<Rightarrow> [])"

text \<open>
  The answers the API documents (spec, sections 6 and 7): one of the listed status
  codes, and every error a JSON object with a \<^verbatim>\<open>message\<close>.
\<close>

definition bad_escape :: "request \<Rightarrow> bool" where
  "bad_escape r \<longleftrightarrow>
     (case route_of (req_method r) (req_path r) of MovieById _ q \<Rightarrow> pct_decode q = None | _ \<Rightarrow> False)"

text \<open>
  The answers Express gives itself, with an HTML page: the body parser's failure, or a
  malformed escape in \<^verbatim>\<open>:id\<close> when the body was accepted.
\<close>

definition express_error :: "request \<Rightarrow> response \<Rightarrow> bool" where
  "express_error r p \<longleftrightarrow>
     (case req_body_error r of
        Some err \<Rightarrow> p = body_error_response err
      | None \<Rightarrow> bad_escape r \<and> p = uri_error_response)"

definition api_response :: "response \<Rightarrow> bool" where
  "api_response p \<longleftrightarrow> status p \<in> {200, 201, 204, 400, 401, 403, 404} \<and>
     (400 \<le> status p \<longrightarrow> (\<exists>t. body p = Message t))"

text \<open>A token issued to alice at 1000 ms, used by the examples below.\<close>

definition demo_token :: string where
  "demo_token = jwt_sign ''fallback_secret_key'' (issue_claims 1000 2 ''alice'')"

text \<open>The requests of a client that logs in, then lists its movies with the token.\<close>

definition login_request :: "string \<Rightarrow> string \<Rightarrow> request" where
  "login_request un pw =
     \<lparr>req_method = POST, req_path = ''/login'', req_authorization = None,
      req_query_status = None, req_body = cred_body un pw, req_body_error = None\<rparr>"

definition list_request :: "string \<Rightarrow> request" where
  "list_request tok =
     \<lparr>req_method = GET, req_path = ''/movies'', req_authorization = bearer_header tok,
      req_query_status = None, req_body = None, req_body_error = None\<rparr>"

section \<open>Properties of the server\<close>

subsection \<open>Helper facts\<close>

lemma head_strip_simps [simp]:
  "head_strip HEAD p = p\<lparr>body := NoContent\<rparr>"
  "m \<noteq> HEAD \<Longrightarrow> head_strip m p = p"
  by (simp_all add: head_strip_def)

lemma route_of_MovieById:
  "route_of m p = MovieById m' q \<Longrightarrow> route_of m'' p = MovieById m'' q"
  by (auto simp: route_of_def split: option.splits list.splits if_splits)

lemma guarded_method [simp]: "guarded k e (r\<lparr>req_method := m\<rparr>) rt s = guarded k e r rt s"
  by (simp add: guarded_def split: sum.split)

lemma route_of_method:
  "(route_of m p = RootPage \<longrightarrow> m = GET) \<and> (route_of m p = LoginRoute \<longrightarrow> m = POST) \<and>
   (route_of m p = ListMovies \<longrightarrow> m = GET) \<and> (route_of m p = CreateMovie \<longrightarrow> m = POST) \<and>
   (\<forall>m' q. route_of m p = MovieById m' q \<longrightarrow> m' = m)"
  by (auto simp: route_of_def split: option.splits list.splits if_splits)


lemma get_route_state: "req_method r = GET \<Longrightarrow> snd (route_request k e r s) = s"
  using route_of_method [of GET "req_path r"]
  by (auto simp: route_request_def guarded_def movie_route_def get_movies_def split_def Let_def
           split: route.splits option.splits sum.splits if_splits)

text \<open>Only a request the body parser, CORS and the \<^verbatim>\<open>HEAD\<close> rule pass to the router can change the state.\<close>

lemma handle_effect:
  "snd (handle k e r s) = (if req_body_error r = None \<and> req_method r \<notin> {OPTIONS, HEAD} then snd (route_request k e r s) else s)"
  "req_body_error r = None \<Longrightarrow> req_method r \<notin> {OPTIONS, HEAD} \<Longrightarrow> fst (handle k e r s) = fst (route_request k e r s)"
  using get_route_state [of "r\<lparr>req_method := GET\<rparr>" k e s]
  by (auto simp: handle_def apfst_def map_prod_def split_def split: option.split)

lemma movie_route_frame: "(snd (movie_route rt st b e u))\<lparr>movies := movies u\<rparr> = u"
  by (auto simp: movie_route_def handlers_frame split: route.splits http_method.splits)

lemma user_key_movies_update [simp]: "user_key (u\<lparr>movies := ms\<rparr>) = user_key u"
  by (simp add: user_key_def)

lemma movie_route_key: "user_key (snd (movie_route rt st b e u)) = user_key u"
  by (metis movie_route_frame user_key_movies_update)

lemma guarded_cases:
  "snd (guarded k e r rt s) = s \<or>
   (\<exists>i u'. authenticateToken k (now e) (req_authorization r) (users s) = Inr i \<and>
           u' = snd (movie_route rt (req_query_status r) (req_body r) e (users s ! i)) \<and>
           snd (guarded k e r rt s) = s\<lparr>users := (users s)[i := u']\<rparr>)"
  by (auto simp: guarded_def split: sum.splits prod.splits)

lemma handle_cases:
  "snd (handle k e r s) = s \<or> (\<exists>rt. snd (handle k e r s) = snd (guarded k e r rt s))"
  by (auto simp: handle_def route_request_def split: route.splits option.splits if_splits)

lemma handle_changes_bound:
  assumes "snd (handle k e r s) \<noteq> s"
  shows "\<exists>i rt. authenticateToken k (now e) (req_authorization r) (users s) = Inr i \<and>
     snd (handle k e r s) =
       s\<lparr>users := (users s)[i := snd (movie_route rt (req_query_status r) (req_body r) e (users s ! i))]\<rparr>"
  using assms handle_cases [of k e r s] guarded_cases by metis

lemma handle_user_keys: "map user_key (users (snd (handle k e r s))) = map user_key (users s)"
proof (cases "snd (handle k e r s) = s")
  case False
  then obtain i rt where
    "snd (handle k e r s) =
       s\<lparr>users := (users s)[i := snd (movie_route rt (req_query_status r) (req_body r) e (users s ! i))]\<rparr>"
    using handle_changes_bound by blast
  then show ?thesis
    by (simp add: map_update_same movie_route_key)
qed simp

lemma handle_isolation:
  assumes "j < length (users s)" and "users (snd (handle k e r s)) ! j \<noteq> users s ! j"
  shows "authenticateToken k (now e) (req_authorization r) (users s) = Inr j"
proof -
  from assms(2) have "snd (handle k e r s) \<noteq> s" by auto
  then obtain i rt where
    g: "authenticateToken k (now e) (req_authorization r) (users s) = Inr i" and
    s': "snd (handle k e r s) =
       s\<lparr>users := (users s)[i := snd (movie_route rt (req_query_status r) (req_body r) e (users s ! i))]\<rparr>"
    using handle_changes_bound by blast
  from assms s' have "i = j" by (cases "i = j") auto
  with g show ?thesis by simp
qed

lemma reachable_user_keys: "reachable k s \<Longrightarrow> map user_key (users s) = map user_key users_init"
proof (induction rule: reachable.induct)
  case start
  then show ?case by (simp add: init_state_def)
next
  case (step s s')
  from step.hyps(2) show ?case
    by cases (simp add: handle_user_keys step.IH)
qed

lemma find_by_id_map: "find_by_id i us = find_idx (\<lambda>x. x = i) (map user_id us)"
  by (simp add: find_by_id_def find_idx_map)

lemma authenticate_same_ids:
  assumes "map user_id us = map user_id us'"
  shows "authenticateToken k n h us = authenticateToken k n h us'"
proof -
  have "find_by_id i us = find_by_id i us'" for i
    using assms by (simp only: find_by_id_map)
  then show ?thesis by (simp add: authenticateToken_def split: option.split sum.split)
qed

lemma map_user_id_key: "map user_id us = map (fst \<circ> user_key) us"
  by (simp add: user_key_def comp_def)

lemma handle_user_ids: "map user_id (users (snd (handle k e r s))) = map user_id (users s)"
  by (metis handle_user_keys map_map map_user_id_key)

lemma response_movies_simps [simp]:
  "response_movies (Message t) = []" "response_movies LoginPage = []" "response_movies (ErrorPage t) = []"
  "response_movies NoContent = []"
  by (simp_all add: response_movies_def)

lemma uri_error_no_movies [simp]: "response_movies (body uri_error_response) = []"
  by (simp add: uri_error_response_def)

lemma body_error_no_movies [simp]: "response_movies (body (body_error_response err)) = []"
  by (cases err) (simp_all add: body_error_response_def)

lemma authenticate_reject_msg:
  "authenticateToken k n h us = Inl resp \<Longrightarrow> response_movies (body resp) = []"
  by (auto simp: authenticateToken_def response_movies_def split: option.splits sum.splits)

lemma get_movies_sub: "set (response_movies (body (get_movies st u))) \<subseteq> set (movies u)"
  by (auto simp: get_movies_def response_movies_def Let_def)

lemma get_movie_sub: "set (response_movies (body (get_movie p u))) \<subseteq> set (movies u)"
  by (auto simp: get_movie_def response_movies_def Let_def find_Some_iff split: option.splits)

lemma reachable_ids_distinct: "reachable k s \<Longrightarrow> distinct (map user_id (users s))"
  using reachable_user_keys [of k s] users_init_ids_distinct
  by (metis map_map map_user_id_key)

lemma reachable_same_keys:
  "reachable k s \<Longrightarrow> reachable k s2 \<Longrightarrow> map user_key (users s2) = map user_key (users s)"
  by (simp add: reachable_user_keys)

lemma handle_login:
  "route_of (req_method r) (req_path r) = LoginRoute \<Longrightarrow> req_body_error r = None \<Longrightarrow>
   handle k e r s = (login k (now e) (req_body r) (users s), s)"
  using route_of_method [of "req_method r" "req_path r"] by (simp add: handle_def route_request_def)

lemma api_response_msg [simp]: "c \<in> {400, 401, 403, 404} \<Longrightarrow> api_response (msg c t)"
  by (auto simp: api_response_def)

lemma api_response_ok [simp]: "c \<in> {200, 201, 204} \<Longrightarrow> api_response \<lparr>status = c, body = p\<rparr>"
  by (auto simp: api_response_def)

lemma movie_route_api: "api_response (fst (movie_route rt st b e u))"
  by (auto simp: movie_route_def get_movies_def post_movie_def get_movie_def put_movie_def
                 patch_movie_def delete_movie_def Let_def
           split: route.splits http_method.splits option.splits if_splits prod.splits)

lemma login_api: "api_response (login k n b us)"
  by (auto simp: login_def Let_def split: option.splits)

lemma authenticate_api: "authenticateToken k n h us = Inl resp \<Longrightarrow> api_response resp"
  by (auto simp: authenticateToken_def split: option.splits sum.splits)

lemma guarded_api: "api_response (fst (guarded k e r rt s))"
  using authenticate_api by (auto simp: guarded_def split_def Let_def movie_route_api split: sum.splits)

lemma route_login_request [simp]:
  "route_of (req_method (login_request un pw)) (req_path (login_request un pw)) = LoginRoute"
  by (simp add: login_request_def route_of_def path_segments_def seg_eq_def lower_ascii_def split_on_def)

lemma route_list_request [simp]:
  "route_of (req_method (list_request tok)) (req_path (list_request tok)) = ListMovies"
  by (simp add: list_request_def route_of_def path_segments_def seg_eq_def lower_ascii_def split_on_def)

lemma handle_list:
  "route_of (req_method r) (req_path r) = ListMovies \<Longrightarrow> req_body_error r = None \<Longrightarrow>
   handle k e r s = guarded k e r ListMovies s"
  using route_of_method [of "req_method r" "req_path r"] by (simp add: handle_def route_request_def)

lemma find_idx_same_keys:
  "map user_key xs = map user_key ys \<Longrightarrow> find_idx (\<lambda>u. Q (user_key u)) xs = find_idx (\<lambda>u. Q (user_key u)) ys"
  by (metis find_idx_map)

lemma users_init_credentials:
  "i < length users_init \<Longrightarrow>
   find_idx (\<lambda>u. username u = username (users_init ! i) \<and> password u = password (users_init ! i)) users_init = Some i"
  by (auto simp: users_init_def less_Suc_eq)

lemma movie_route_new_movies:
  assumes "m \<in> set (movies (snd (movie_route rt st b e u)))"
  shows "m \<in> set (movies u) \<or> m \<in> set (response_movies (body (fst (movie_route rt st b e u))))"
  using assms
  by (auto simp: movie_route_def get_movies_def post_movie_def get_movie_def put_movie_def patch_movie_def
                 delete_movie_def Let_def response_movies_def
           dest: set_update_subset_insert [THEN subsetD]
           split: route.splits http_method.splits option.splits if_splits prod.splits)

lemma handle_new_movies:
  assumes "j < length (users s)" and "m \<in> set (movies (users (snd (handle k e r s)) ! j))"
  shows "m \<in> set (movies (users s ! j)) \<or>
         (authenticateToken k (now e) (req_authorization r) (users s) = Inr j \<and>
          m \<in> set (response_movies (body (fst (handle k e r s)))))"
proof (cases "users (snd (handle k e r s)) ! j = users s ! j")
  case True
  with assms(2) show ?thesis by simp
next
  case False
  have g: "authenticateToken k (now e) (req_authorization r) (users s) = Inr j"
    using handle_isolation [OF assms(1) False] .
  have c: "req_body_error r = None \<and> req_method r \<notin> {OPTIONS, HEAD}"
    using False by (auto simp: handle_effect(1) split: if_splits)
  then have "snd (handle k e r s) = snd (route_request k e r s)" "fst (handle k e r s) = fst (route_request k e r s)"
    by (simp_all add: handle_effect)
  then obtain rt where "snd (handle k e r s) = snd (guarded k e r rt s)"
    "fst (handle k e r s) = fst (guarded k e r rt s)"
    using False by (auto simp: route_request_def split: route.splits option.splits if_splits)
  with g assms show ?thesis
    using movie_route_new_movies [of m rt "req_query_status r" "req_body r" e "users s ! j"]
    by (auto simp: guarded_def split_def Let_def)
qed

lemma run_Cons:
  "run k ((e, r) # rs) s = (fst (handle k e r s) # fst (run k rs (snd (handle k e r s))),
                            snd (run k rs (snd (handle k e r s))))"
  by (simp add: split_def Let_def)

lemma bad_escape_method: "bad_escape (r\<lparr>req_method := m\<rparr>) = bad_escape r"
proof -
  have "(case route_of m p of MovieById _ q \<Rightarrow> pct_decode q = None | _ \<Rightarrow> False) =
        (case route_of m' p of MovieById _ q \<Rightarrow> pct_decode q = None | _ \<Rightarrow> False)" for m m' p
    using route_of_MovieById [of m p _ _ m'] route_of_MovieById [of m' p _ _ m]
    by (cases "route_of m p"; cases "route_of m' p") fastforce+
  then show ?thesis by (simp add: bad_escape_def)
qed

lemma route_request_kinds:
  "api_response (fst (route_request k e r s)) \<or>
   (bad_escape r \<and> fst (route_request k e r s) = uri_error_response)"
  by (cases "route_of (req_method r) (req_path r)")
     (auto simp: route_request_def bad_escape_def guarded_api login_api split: option.split)

lemma handle_body_error_status:
  "req_body_error r = Some err \<Longrightarrow> status (fst (handle k e r s)) \<in> {400, 413, 415}"
  by (cases err) (simp_all add: handle_def head_strip_def body_error_response_def)

subsection \<open>Isolation and the fixed user table\<close>

text \<open>
  C4. Isolation of users: over any sequence of requests, a user whom no request of the
  sequence authenticates as (judged on the table as it stood before the sequence) ends
  the sequence exactly as it began, movies included.
\<close>

lemma run_isolation:
  assumes "\<forall>(e, r)\<in>set rs. authenticateToken k (now e) (req_authorization r) (users s) \<noteq> Inr j"
    and "j < length (users s)"
  shows "users (snd (run k rs s)) ! j = users s ! j"
  using assms
proof (induction rs arbitrary: s)
  case Nil
  then show ?case by simp
next
  case (Cons er rs)
  obtain e r where er: "er = (e, r)" by fastforce
  let ?s1 = "snd (handle k e r s)"
  have ids: "map user_id (users ?s1) = map user_id (users s)"
    by (rule handle_user_ids)
  then have len: "length (users ?s1) = length (users s)"
    by (metis length_map)
  have j1: "users ?s1 ! j = users s ! j"
    using Cons.prems er handle_isolation [of j s k e r] by auto
  have "\<forall>(e', r')\<in>set rs. authenticateToken k (now e') (req_authorization r') (users ?s1) \<noteq> Inr j"
    using Cons.prems(1) authenticate_same_ids [OF ids] by auto
  with len Cons.prems(2) have "users (snd (run k rs ?s1)) ! j = users ?s1 ! j"
    by (intro Cons.IH) auto
  with j1 er show ?case by (simp add: case_prod_beta)
qed

lemma run_isolation_witness:
  "users (snd (run ''fallback_secret_key''
      [(\<lparr>now = 5000, random = 1/2\<rparr>,
        \<lparr>req_method = DELETE, req_path = ''/movies/1005'', req_authorization = bearer_header demo_token,
         req_query_status = None, req_body = None, req_body_error = None\<rparr>)] init_state)) ! 0 = users init_state ! 0"
proof -
  have g: "authenticateToken ''fallback_secret_key'' 5000 (bearer_header demo_token) (users init_state) = Inr 1"
    by (simp add: init_state_def demo_token_def)
  have l: "0 < length (users init_state)"
    by (simp add: init_state_def users_init_def)
  show ?thesis
    using run_isolation [where rs = "[(\<lparr>now = 5000, random = 1/2\<rparr>,
        \<lparr>req_method = DELETE, req_path = ''/movies/1005'', req_authorization = bearer_header demo_token,
         req_query_status = None, req_body = None, req_body_error = None\<rparr>)]" and k = "''fallback_secret_key''" and s = init_state and j = 0]
      g l by simp
qed

text \<open>
  C5. No reads across users: every movie in the response to a GET request is a movie
  of the user the request's token binds; a request the guard rejects, and the login
  page and 404 answers, carry no movie.
\<close>

lemma handle_get_reads_own:
  assumes "req_method r = GET" and "m \<in> set (response_movies (body (fst (handle k e r s))))"
  shows "\<exists>i. authenticateToken k (now e) (req_authorization r) (users s) = Inr i \<and>
             m \<in> set (movies (users s ! i))"
proof -
  have read_list: "m \<in> set (movies (users s ! i))"
    if "authenticateToken k (now e) (req_authorization r) (users s) = Inr i"
       and "m \<in> set (response_movies (body (fst (guarded k e r ListMovies s))))" for i
    using that by (auto simp: guarded_def movie_route_def dest: subsetD [OF get_movies_sub])
  have read_id: "m \<in> set (movies (users s ! i))"
    if "authenticateToken k (now e) (req_authorization r) (users s) = Inr i"
       and "m \<in> set (response_movies (body (fst (guarded k e r (MovieById GET p) s))))" for i p
    using that by (auto simp: guarded_def movie_route_def dest: subsetD [OF get_movie_sub])
  have reject: "m \<notin> set (response_movies (body (fst (guarded k e r rt s))))"
    if "\<forall>i. authenticateToken k (now e) (req_authorization r) (users s) \<noteq> Inr i" for rt
    using that authenticate_reject_msg
    by (auto simp: guarded_def split: sum.splits prod.splits)
  have cases_m: "route_of GET (req_path r) \<in> {RootPage, ListMovies, NoRoute} \<or>
               (\<exists>p. route_of GET (req_path r) = MovieById GET p)"
    using route_of_method [of GET "req_path r"] by (cases "route_of GET (req_path r)") auto
  have nb: "req_body_error r = None"
    using assms by (cases "req_body_error r") (simp_all add: handle_def)
  with assms have m: "m \<in> set (response_movies (body (fst (route_request k e r s))))"
    by (simp add: handle_def)
  show ?thesis
  proof (cases "\<exists>i. authenticateToken k (now e) (req_authorization r) (users s) = Inr i")
    case True
    then obtain i where i: "authenticateToken k (now e) (req_authorization r) (users s) = Inr i"
      by blast
    from cases_m assms(1) m have "m \<in> set (movies (users s ! i))"
      by (auto simp: route_request_def dest: read_list [OF i] read_id [OF i] split: option.splits)
    with i show ?thesis by blast
  next
    case False
    with cases_m assms(1) m reject show ?thesis
      by (auto simp: route_request_def split: option.splits)
  qed
qed

lemma handle_get_reads_own_witness:
  "\<exists>i. authenticateToken ''fallback_secret_key'' 5000 (bearer_header demo_token) [hd users_init, demo_user] = Inr i \<and>
      \<lparr>movie_id = 2042, movietitle = JStr ''Heat'', language = JStr ''English'', watched = True\<rparr>
        \<in> set (movies ([hd users_init, demo_user] ! i))"
proof -
  let ?r = "\<lparr>req_method = GET, req_path = ''/movies'', req_authorization = bearer_header demo_token,
            req_query_status = None, req_body = None, req_body_error = None\<rparr>"
  let ?s = "\<lparr>users = [hd users_init, demo_user]\<rparr>"
  let ?e = "\<lparr>now = 5000, random = 1/2\<rparr>"
  have rt: "route_of GET ''/movies'' = ListMovies"
    by (simp add: route_of_def path_segments_def seg_eq_def lower_ascii_def split_on_def)
  have "find_by_id 2 [hd users_init, demo_user] = Some 1"
    by (simp add: find_by_id_def users_init_def demo_user_def)
  then have g: "authenticateToken ''fallback_secret_key'' 5000 (bearer_header demo_token) [hd users_init, demo_user] = Inr 1"
    by (simp add: demo_token_def authenticate_issued)
  have "fst (handle ''fallback_secret_key'' ?e ?r ?s) = \<lparr>status = 200, body = MovieList (movies demo_user)\<rparr>"
    by (simp add: handle_def route_request_def rt guarded_def g movie_route_def get_movies_def)
  then have "\<lparr>movie_id = 2042, movietitle = JStr ''Heat'', language = JStr ''English'', watched = True\<rparr>
        \<in> set (response_movies (body (fst (handle ''fallback_secret_key'' ?e ?r ?s))))"
    by (simp add: response_movies_def demo_user_def)
  from handle_get_reads_own [OF _ this] show ?thesis by simp
qed

text \<open>
  C19. A request on \<^verbatim>\<open>/movies/:id\<close> whose id has a malformed percent escape
  answers 400 and changes nothing, whatever its method and whether or not it carries a
  token: the parameter is decoded before the method is matched and before the guard.
\<close>

lemma handle_bad_escape:
  assumes "route_of (req_method r) (req_path r) = MovieById m q" and "pct_decode q = None"
    and "req_body_error r = None" and "req_method r \<noteq> OPTIONS"
  shows "handle k e r s = (head_strip (req_method r) uri_error_response, s)"
proof -
  have "route_of GET (req_path r) = MovieById GET q"
    using assms(1) by (rule route_of_MovieById)
  with assms show ?thesis
    by (cases "req_method r = HEAD") (simp_all add: handle_def route_request_def)
qed

lemma handle_bad_escape_witness:
  "handle ''fallback_secret_key'' \<lparr>now = 5000, random = 1/2\<rparr>
     \<lparr>req_method = DELETE, req_path = ''/movies/%zz'', req_authorization = None,
      req_query_status = None, req_body = None, req_body_error = None\<rparr> init_state =
   (\<lparr>status = 400, body = ErrorPage ''URIError: Failed to decode param''\<rparr>, init_state)"
proof -
  have "route_of DELETE ''/movies/%zz'' = MovieById DELETE ''%zz''"
    by (simp add: route_of_def path_segments_def seg_eq_def lower_ascii_def split_on_def)
  moreover have "pct_decode ''%zz'' = None"
    by (simp add: pct_decode_def hex_byte_def radix_digit_def Let_def)
  ultimately show ?thesis
    using handle_bad_escape [where r = "\<lparr>req_method = DELETE, req_path = ''/movies/%zz'', req_authorization = None,
      req_query_status = None, req_body = None, req_body_error = None\<rparr>" and m = DELETE and q = "''%zz''"]
    by (simp add: uri_error_response_def)
qed

text \<open>
  C7. In every reachable state the user table holds exactly the two start-up accounts,
  in order, with their ids, names and passwords: no request adds, removes, reorders or
  alters an account; only movie lists change.
\<close>

lemma reachable_users_fixed:
  assumes "reachable k s"
  shows "map user_key (users s) = [(1, ''Ashwanth'', ''kok123''), (2, ''alice'', ''123'')]"
  using reachable_user_keys [OF assms] by (simp add: users_init_def user_key_def)

lemma reachable_users_fixed_witness:
  "map user_key (users init_state) = [(1, ''Ashwanth'', ''kok123''), (2, ''alice'', ''123'')]"
  by (rule reachable_users_fixed [OF reachable.start [of "''fallback_secret_key''"]])

text \<open>
  C6. Provenance of a user's movies: after any sequence of requests, every movie in a
  user's list was already in it at the start or was returned in the response to a
  request of the sequence that authenticated as that user. Movies created by one
  user reach another's list only through that other user's own requests.
\<close>

lemma run_provenance:
  assumes "j < length (users s)" and "m \<in> set (movies (users (snd (run k rs s)) ! j))"
  shows "m \<in> set (movies (users s ! j)) \<or>
         (\<exists>n<length rs. authenticateToken k (now (fst (rs ! n))) (req_authorization (snd (rs ! n))) (users s) = Inr j \<and>
                        m \<in> set (response_movies (body (fst (run k rs s) ! n))))"
  using assms
proof (induction rs arbitrary: s)
  case Nil
  then show ?case by simp
next
  case (Cons er rs)
  obtain e r where er: "er = (e, r)" by fastforce
  let ?s1 = "snd (handle k e r s)"
  have ids: "map user_id (users ?s1) = map user_id (users s)"
    by (rule handle_user_ids)
  then have len: "length (users ?s1) = length (users s)"
    by (metis length_map)
  have same: "authenticateToken k n h (users ?s1) = authenticateToken k n h (users s)" for n h
    by (rule authenticate_same_ids [OF ids])
  from Cons.prems(2) have "m \<in> set (movies (users (snd (run k rs ?s1)) ! j))"
    by (simp add: er run_Cons del: run.simps)
  with Cons.IH [of ?s1] len Cons.prems(1) consider
      (old) "m \<in> set (movies (users ?s1 ! j))"
    | (new) n where "n < length rs"
        "authenticateToken k (now (fst (rs ! n))) (req_authorization (snd (rs ! n))) (users s) = Inr j"
        "m \<in> set (response_movies (body (fst (run k rs ?s1) ! n)))"
    using same by auto
  then show ?case
  proof cases
    case old
    from handle_new_movies [OF Cons.prems(1) old] show ?thesis
    proof
      assume "authenticateToken k (now e) (req_authorization r) (users s) = Inr j \<and>
              m \<in> set (response_movies (body (fst (handle k e r s))))"
      then show ?thesis
        by (intro disjI2 exI [of _ 0]) (simp add: er run_Cons del: run.simps)
    qed simp
  next
    case new
    then show ?thesis
      by (intro disjI2 exI [of _ "Suc n"]) (simp add: er run_Cons del: run.simps)
  qed
qed

lemma run_provenance_witness:
  "\<lparr>movie_id = 5500, movietitle = JStr ''Inception'', language = JStr ''English'', watched = False\<rparr>
     \<in> set (movies (users init_state ! 1)) \<or>
   (\<exists>n<1. authenticateToken ''fallback_secret_key'' 5000 (bearer_header demo_token) (users init_state) = Inr 1 \<and>
      \<lparr>movie_id = 5500, movietitle = JStr ''Inception'', language = JStr ''English'', watched = False\<rparr>
        \<in> set (response_movies (body (fst (run ''fallback_secret_key''
              [(\<lparr>now = 5000, random = 1/2\<rparr>,
                \<lparr>req_method = POST, req_path = ''/movies'', req_authorization = bearer_header demo_token,
                 req_query_status = None, req_body = demo_body, req_body_error = None\<rparr>)] init_state) ! n))))"
proof -
  let ?e = "\<lparr>now = 5000, random = 1/2\<rparr>"
  let ?r = "\<lparr>req_method = POST, req_path = ''/movies'', req_authorization = bearer_header demo_token,
            req_query_status = None, req_body = demo_body, req_body_error = None\<rparr>"
  let ?m = "\<lparr>movie_id = 5500, movietitle = JStr ''Inception'', language = JStr ''English'', watched = False\<rparr>"
  have rt: "route_of POST ''/movies'' = CreateMovie"
    by (simp add: route_of_def path_segments_def seg_eq_def lower_ascii_def split_on_def)
  have g: "authenticateToken ''fallback_secret_key'' 5000 (bearer_header demo_token) (users init_state) = Inr 1"
    by (simp add: init_state_def demo_token_def)
  have p: "snd (post_movie demo_body 5000 (1/2) (users init_state ! 1)) = (users init_state ! 1)\<lparr>movies := [?m]\<rparr>"
    by (simp add: post_movie_def demo_body_def generateId_def Let_def init_state_def users_init_def)
  have "snd (handle ''fallback_secret_key'' ?e ?r init_state) =
        init_state\<lparr>users := (users init_state)[1 := (users init_state ! 1)\<lparr>movies := [?m]\<rparr>]\<rparr>"
    using g p by (simp add: handle_def route_request_def rt guarded_def movie_route_def split_def)
  then have "?m \<in> set (movies (users (snd (run ''fallback_secret_key'' [(?e, ?r)] init_state)) ! 1))"
    by (simp only: run_Cons) (simp add: init_state_def users_init_def)
  moreover have "1 < length (users init_state)"
    by (simp add: init_state_def users_init_def)
  ultimately show ?thesis
    using run_provenance [of 1 init_state ?m "''fallback_secret_key''" "[(?e, ?r)]"] by simp
qed

subsection \<open>Responses\<close>

text \<open>
  C20. Every answer of the server has one of the status codes 200, 201, 204, 400, 401,
  403, 404 and, when it is an error, a JSON body with a message; the one exception is
  a malformed escape in \<^verbatim>\<open>:id\<close>, which Express's default error handler answers
  with a 400 page that is not JSON.
\<close>

lemma handle_response_kinds:
  "\<exists>p. fst (handle k e r s) = head_strip (req_method r) p \<and> (api_response p \<or> express_error r p)"
proof (cases "req_body_error r")
  case (Some err)
  then have "fst (handle k e r s) = head_strip (req_method r) (body_error_response err)"
    by (simp add: handle_def)
  with Some show ?thesis by (auto simp: express_error_def)
next
  case None
  show ?thesis
  proof (cases "req_method r = OPTIONS")
    case True
    with None show ?thesis by (simp add: handle_def api_response_def)
  next
    case opt: False
    show ?thesis
    proof (cases "req_method r = HEAD")
      case True
      have "fst (handle k e r s) = head_strip (req_method r) (fst (route_request k e (r\<lparr>req_method := GET\<rparr>) s))"
        using None True by (simp add: handle_def)
      with None route_request_kinds [of k e "r\<lparr>req_method := GET\<rparr>" s] show ?thesis
        by (auto simp: express_error_def bad_escape_method)
    next
      case False
      with None opt route_request_kinds [of k e r s] show ?thesis
        by (auto simp: handle_def express_error_def)
    qed
  qed
qed

lemma handle_response_kinds_witness:
  "\<exists>p. fst (handle ''fallback_secret_key'' \<lparr>now = 5000, random = 1/2\<rparr>
          \<lparr>req_method = HEAD, req_path = ''/movies/%zz'', req_authorization = None,
           req_query_status = None, req_body = None, req_body_error = None\<rparr> init_state) = head_strip HEAD p \<and>
     (api_response p \<or>
      express_error \<lparr>req_method = HEAD, req_path = ''/movies/%zz'', req_authorization = None,
                      req_query_status = None, req_body = None, req_body_error = None\<rparr> p)"
  using handle_response_kinds [of "''fallback_secret_key''" "\<lparr>now = 5000, random = 1/2\<rparr>"
      "\<lparr>req_method = HEAD, req_path = ''/movies/%zz'', req_authorization = None,
        req_query_status = None, req_body = None, req_body_error = None\<rparr>" init_state]
  by simp

end
