(* ===== verification/Watchlist_Spec.thy ===== *)
theory Watchlist_Spec
  imports Server
begin

text \<open>
  The Watchlist Store against its specification (spec, sections 3 and 4.4). The
  typing of a movie the data model promises (title and language strings), the typing
  of a request body that supplies it, and an abstract store: movies with string
  fields, the six operations as relations between the store before and after and
  the result, with the freedom the specification leaves (any fresh id on creation,
  either error for a replacement of a missing entry with an incomplete body). The
  handlers refine it through the abstraction of movies, requests and responses,
  under the invariants that ids are distinct and movies typed.
\<close>

section \<open>Typed movies and bodies\<close>

definition json_string :: "json \<Rightarrow> bool" where
  "json_string v \<longleftrightarrow> (case v of JStr _ \<Rightarrow> True | _ \<Rightarrow> False)"

definition json_boolean :: "json \<Rightarrow> bool" where
  "json_boolean v \<longleftrightarrow> (case v of JBool _ \<Rightarrow> True | _ \<Rightarrow> False)"

text \<open>A movie as the data model has it: title and language are strings.\<close>

definition movie_typed :: "movie \<Rightarrow> bool" where
  "movie_typed m \<longleftrightarrow> json_string (movietitle m) \<and> json_string (language m)"

definition user_typed :: "user \<Rightarrow> bool" where
  "user_typed u \<longleftrightarrow> list_all movie_typed (movies u)"

text \<open>A field of the body that is absent or satisfies \<open>P\<close>.\<close>

definition field_typed :: "(json \<Rightarrow> bool) \<Rightarrow> json option \<Rightarrow> string \<Rightarrow> bool" where
  "field_typed P b k \<longleftrightarrow> (case body_field b k of None \<Rightarrow> True | Some v \<Rightarrow> P v)"

definition body_typed :: "json option \<Rightarrow> bool" where
  "body_typed b \<longleftrightarrow> field_typed json_string b ''movietitle'' \<and> field_typed json_string b ''language'' \<and>
     field_typed json_boolean b ''watched''"

section \<open>The abstract store\<close>

text \<open>A movie of the specification's data model: an id and three typed fields.\<close>

record amovie =
  a_id :: int
  a_title :: string
  a_language :: string
  a_watched :: bool

datatype wl_error = ValidationError | NotFound

text \<open>
  Results: the listed movies, the created movie (201), the one movie read or updated
  (200), or the removal (204).
\<close>

datatype wl_result = Listed "amovie list" | Created amovie | One amovie | Removed

datatype status_filter = OnlyWatched | OnlyUnwatched | NoFilter

text \<open>
  The six operations with their arguments as the specification states them: the
  path id already coerced (\<open>None\<close> when it is not an integer), the fields of the body
  present or absent.
\<close>

datatype wl_req =
    ListReq status_filter
  | CreateReq "string option" "string option" "bool option"
  | GetReq "int option"
  | ReplaceReq "int option" "string option" "string option" "bool option"
  | PatchReq "int option" "string option" "string option" "bool option"
  | RemoveReq "int option"

fun filter_ok :: "status_filter \<Rightarrow> amovie \<Rightarrow> bool" where
  "filter_ok OnlyWatched a = a_watched a"
| "filter_ok OnlyUnwatched a = (\<not> a_watched a)"
| "filter_ok NoFilter a = True"

definition id_is :: "int option \<Rightarrow> amovie \<Rightarrow> bool" where
  "id_is i a \<longleftrightarrow> i = Some (a_id a)"

text \<open>A field of \<open>create\<close> that is present and non-empty.\<close>

definition present :: "string option \<Rightarrow> bool" where
  "present t \<longleftrightarrow> t \<noteq> None \<and> t \<noteq> Some []"

definition patch_fields :: "string option \<Rightarrow> string option \<Rightarrow> bool option \<Rightarrow> amovie \<Rightarrow> amovie" where
  "patch_fields t l w a =
     a\<lparr>a_title := (case t of None \<Rightarrow> a_title a | Some t' \<Rightarrow> t'),
       a_language := (case l of None \<Rightarrow> a_language a | Some l' \<Rightarrow> l'),
       a_watched := (case w of None \<Rightarrow> a_watched a | Some w' \<Rightarrow> w')\<rparr>"

text \<open>
  The specification of the store (spec, section 4.4) as a relation between a request,
  the movies before, the result and the movies after. Creation may pick any id not in
  the list; a replacement of a missing entry with an incomplete body may fail with
  either error, the specification listing both without an order.
\<close>

definition wl_spec :: "wl_req \<Rightarrow> amovie list \<Rightarrow> wl_error + wl_result \<Rightarrow> amovie list \<Rightarrow> bool" where
  "wl_spec q ams res ams' \<longleftrightarrow>
     (case q of
        ListReq f \<Rightarrow> res = Inr (Listed (filter (filter_ok f) ams)) \<and> ams' = ams
      | CreateReq t l w \<Rightarrow>
          (if present t \<and> present l then
             (case res of
                Inr (Created a) \<Rightarrow>
                  Some (a_title a) = t \<and> Some (a_language a) = l \<and> a_watched a = (w = Some True) \<and>
                  a_id a \<notin> set (map a_id ams) \<and> ams' = ams @ [a]
              | _ \<Rightarrow> False)
           else res = Inl ValidationError \<and> ams' = ams)
      | GetReq i \<Rightarrow>
          ams' = ams \<and> res = (case List.find (id_is i) ams of None \<Rightarrow> Inl NotFound | Some a \<Rightarrow> Inr (One a))
      | ReplaceReq i t l w \<Rightarrow>
          (case List.find (id_is i) ams of
             None \<Rightarrow> ams' = ams \<and> (res = Inl NotFound \<or> (t = None \<or> l = None \<or> w = None) \<and> res = Inl ValidationError)
           | Some a \<Rightarrow>
               (case (t, l, w) of
                  (Some t', Some l', Some w') \<Rightarrow>
                    res = Inr (One (a\<lparr>a_title := t', a_language := l', a_watched := w'\<rparr>)) \<and>
                    ams' = map (\<lambda>x. if id_is i x then x\<lparr>a_title := t', a_language := l', a_watched := w'\<rparr> else x) ams
                | _ \<Rightarrow> res = Inl ValidationError \<and> ams' = ams))
      | PatchReq i t l w \<Rightarrow>
          (case List.find (id_is i) ams of
             None \<Rightarrow> res = Inl NotFound \<and> ams' = ams
           | Some a \<Rightarrow>
               res = Inr (One (patch_fields t l w a)) \<and>
               ams' = map (\<lambda>x. if id_is i x then patch_fields t l w x else x) ams)
      | RemoveReq i \<Rightarrow>
          (if list_ex (id_is i) ams then res = Inr Removed \<and> ams' = filter (\<lambda>x. \<not> id_is i x) ams
           else res = Inl NotFound \<and> ams' = ams))"

section \<open>Abstraction\<close>

definition json_text :: "json \<Rightarrow> string" where
  "json_text v = (case v of JStr s \<Rightarrow> s | _ \<Rightarrow> [])"

definition abs_movie :: "movie \<Rightarrow> amovie" where
  "abs_movie m =
     \<lparr>a_id = movie_id m, a_title = json_text (movietitle m), a_language = json_text (language m),
      a_watched = watched m\<rparr>"

definition text_field :: "json option \<Rightarrow> string \<Rightarrow> string option" where
  "text_field b k = map_option json_text (body_field b k)"

definition flag_field :: "json option \<Rightarrow> string \<Rightarrow> bool option" where
  "flag_field b k = map_option truthy (body_field b k)"

text \<open>The path id as an integer, when \<^verbatim>\<open>Number\<close> gives one.\<close>

definition coerce_id :: "string \<Rightarrow> int option" where
  "coerce_id p =
     (case to_number p of
        NumVal q \<Rightarrow> if q = of_int \<lfloor>q\<rfloor> then Some \<lfloor>q\<rfloor> else None
      | _ \<Rightarrow> None)"

definition abs_filter :: "json option \<Rightarrow> status_filter" where
  "abs_filter st =
     (if strict_eq_str st ''watched'' then OnlyWatched
      else if strict_eq_str st ''unwatched'' then OnlyUnwatched else NoFilter)"

definition abs_req :: "route \<Rightarrow> json option \<Rightarrow> json option \<Rightarrow> wl_req option" where
  "abs_req rt st b =
     (let t = text_field b ''movietitle''; l = text_field b ''language''; w = flag_field b ''watched'' in
      case rt of
        ListMovies \<Rightarrow> Some (ListReq (abs_filter st))
      | CreateMovie \<Rightarrow> Some (CreateReq t l w)
      | MovieById GET p \<Rightarrow> Some (GetReq (coerce_id p))
      | MovieById PUT p \<Rightarrow> Some (ReplaceReq (coerce_id p) t l w)
      | MovieById PATCH p \<Rightarrow> Some (PatchReq (coerce_id p) t l w)
      | MovieById DELETE p \<Rightarrow> Some (RemoveReq (coerce_id p))
      | _ \<Rightarrow> None)"

text \<open>The response read back: the status codes of the interface table and their bodies.\<close>

definition abs_res :: "response \<Rightarrow> (wl_error + wl_result) option" where
  "abs_res r =
     (case body r of
        MovieList ms \<Rightarrow> if status r = 200 then Some (Inr (Listed (map abs_movie ms))) else None
      | MovieBody m \<Rightarrow>
          if status r = 200 then Some (Inr (One (abs_movie m)))
          else if status r = 201 then Some (Inr (Created (abs_movie m))) else None
      | NoContent \<Rightarrow> if status r = 204 then Some (Inr Removed) else None
      | Message _ \<Rightarrow>
          if status r = 400 then Some (Inl ValidationError)
          else if status r = 404 then Some (Inl NotFound) else None
      | _ \<Rightarrow> None)"

text \<open>
  A handler's answer and updated user implement request \<open>q\<close> on user \<open>u\<close>: the response
  reads back as a result, and the specification relates the abstract movies before,
  that result and the abstract movies after.
\<close>

definition wl_refines :: "wl_req \<Rightarrow> user \<Rightarrow> response \<times> user \<Rightarrow> bool" where
  "wl_refines q u ru =
     (case abs_res (fst ru) of
        None \<Rightarrow> False
      | Some res \<Rightarrow> wl_spec q (map abs_movie (movies u)) res (map abs_movie (movies (snd ru))))"

section \<open>Typing\<close>

lemma field_typed_Some [simp]: "body_field b k = Some v \<Longrightarrow> field_typed P b k \<longleftrightarrow> P v"
  by (simp add: field_typed_def)

lemma movie_typed_update [simp]:
  "movie_typed (m\<lparr>watched := w\<rparr>) = movie_typed m"
  "movie_typed (m\<lparr>movietitle := t\<rparr>) \<longleftrightarrow> json_string t \<and> json_string (language m)"
  "movie_typed (m\<lparr>language := l\<rparr>) \<longleftrightarrow> json_string (movietitle m) \<and> json_string l"
  by (simp_all add: movie_typed_def)

lemma list_all_update: "list_all P xs \<Longrightarrow> P y \<Longrightarrow> list_all P (xs[j := y])"
  by (simp add: list_all_iff) (metis in_set_conv_nth length_list_update nth_list_update nth_list_update_neq)

lemma post_movie_typed:
  "user_typed u \<Longrightarrow> body_typed b \<Longrightarrow> user_typed (snd (post_movie b n r u))"
  by (auto simp: post_movie_def user_typed_def body_typed_def movie_typed_def Let_def
           split: option.splits)

lemma put_movie_typed:
  "user_typed u \<Longrightarrow> body_typed b \<Longrightarrow> user_typed (snd (put_movie p b u))"
  by (auto simp: put_movie_def user_typed_def body_typed_def Let_def movie_typed_def
           dest: find_idx_SomeD intro!: list_all_update split: option.splits)

lemma found_typed:
  "user_typed u \<Longrightarrow> find_idx P (movies u) = Some j \<Longrightarrow> movie_typed (movies u ! j)"
  by (auto simp: user_typed_def list_all_length dest: find_idx_SomeD)

lemma patch_movie_typed:
  assumes "user_typed u" and "body_typed b"
  shows "user_typed (snd (patch_movie p b u))"
proof (cases "find_idx (movie_matches (to_number p)) (movies u)")
  case (Some j)
  with assms(1) have "movie_typed (movies u ! j)" by (rule found_typed)
  with Some assms show ?thesis
    by (auto simp: patch_movie_def user_typed_def body_typed_def Let_def movie_typed_def
             intro!: list_all_update split: option.splits)
qed (simp add: patch_movie_def assms(1))

lemma delete_movie_typed: "user_typed u \<Longrightarrow> user_typed (snd (delete_movie p u))"
  by (auto simp: delete_movie_def user_typed_def Let_def list_all_iff)

section \<open>Refinement\<close>

subsection \<open>Matching by the coerced id\<close>

lemma coerce_id_Some: "coerce_id p = Some i \<longleftrightarrow> to_number p = NumVal (of_int i)"
  by (auto simp: coerce_id_def split: js_number.splits)

lemma matches_abs: "movie_matches (to_number p) m \<longleftrightarrow> id_is (coerce_id p) (abs_movie m)"
  by (auto simp: movie_matches_def num_eq_int_def id_is_def abs_movie_def coerce_id_Some)

lemma find_map_option: "List.find P (map f xs) = map_option f (List.find (P \<circ> f) xs)"
  by (induction xs) auto

lemma find_abs:
  "List.find (id_is (coerce_id p)) (map abs_movie ms) =
   map_option abs_movie (List.find (movie_matches (to_number p)) ms)"
  by (simp add: find_map_option comp_def matches_abs [abs_def])

lemma filter_abs:
  "filter (\<lambda>x. \<not> id_is (coerce_id p) x) (map abs_movie ms) =
   map abs_movie (filter (\<lambda>m. \<not> movie_matches (to_number p) m) ms)"
  by (simp add: filter_map comp_def matches_abs)

lemma list_ex_abs:
  "list_ex (id_is (coerce_id p)) (map abs_movie ms) \<longleftrightarrow> (\<exists>m\<in>set ms. movie_matches (to_number p) m)"
  by (simp add: list_ex_iff matches_abs)

lemma abs_res_simps [simp]:
  "abs_res (msg 400 t) = Some (Inl ValidationError)"
  "abs_res (msg 404 t) = Some (Inl NotFound)"
  "abs_res \<lparr>status = 200, body = MovieBody m\<rparr> = Some (Inr (One (abs_movie m)))"
  "abs_res \<lparr>status = 201, body = MovieBody m\<rparr> = Some (Inr (Created (abs_movie m)))"
  "abs_res \<lparr>status = 200, body = MovieList ms\<rparr> = Some (Inr (Listed (map abs_movie ms)))"
  "abs_res \<lparr>status = 204, body = NoContent\<rparr> = Some (Inr Removed)"
  by (simp_all add: abs_res_def)

lemma map_update_distinct:
  assumes "distinct (map h xs)" and "j < length xs"
  shows "map f (xs[j := g (xs ! j)]) = map (\<lambda>x. if h x = h (xs ! j) then f (g x) else f x) xs"
proof (rule nth_equalityI)
  fix k assume k: "k < length (map f (xs[j := g (xs ! j)]))"
  show "map f (xs[j := g (xs ! j)]) ! k = map (\<lambda>x. if h x = h (xs ! j) then f (g x) else f x) xs ! k"
  proof (cases "k = j")
    case False
    with assms k have "h (xs ! k) \<noteq> h (xs ! j)"
      using nth_eq_iff_index_eq [of "map h xs" k j] by simp
    with False k show ?thesis by simp
  qed (use k in simp)
qed simp

lemma a_id_abs [simp]: "a_id (abs_movie m) = movie_id m"
  by (simp add: abs_movie_def)

lemma abs_movie_update [simp]:
  "abs_movie (m\<lparr>movietitle := t\<rparr>) = (abs_movie m)\<lparr>a_title := json_text t\<rparr>"
  "abs_movie (m\<lparr>language := l\<rparr>) = (abs_movie m)\<lparr>a_language := json_text l\<rparr>"
  "abs_movie (m\<lparr>watched := w\<rparr>) = (abs_movie m)\<lparr>a_watched := w\<rparr>"
  by (simp_all add: abs_movie_def)

lemma abs_update:
  assumes "ids_distinct u" and "find_idx (movie_matches (to_number p)) (movies u) = Some j"
    and "\<And>m. abs_movie (g m) = F (abs_movie m)"
  shows "map abs_movie ((movies u)[j := g (movies u ! j)]) =
         map (\<lambda>x. if id_is (coerce_id p) x then F x else x) (map abs_movie (movies u))"
proof -
  from find_idx_SomeD [OF assms(2)] have j: "j < length (movies u)"
    and "movie_matches (to_number p) (movies u ! j)" by auto
  then have c: "coerce_id p = Some (movie_id (movies u ! j))"
    by (simp add: movie_matches_def num_eq_int_def coerce_id_Some)
  show ?thesis
    using map_update_distinct [of movie_id "movies u" j abs_movie g] assms(1) j
    by (auto simp: ids_distinct_def c id_is_def assms(3))
qed

subsection \<open>The operations\<close>

lemma refine_list: "wl_refines (ListReq (abs_filter st)) u (get_movies st u, u)"
  by (simp add: wl_refines_def wl_spec_def get_movies_def abs_filter_def Let_def filter_map comp_def
                abs_movie_def)

lemma refine_get: "wl_refines (GetReq (coerce_id p)) u (get_movie p u, u)"
  by (simp add: wl_refines_def wl_spec_def get_movie_def find_abs split: option.split)

lemma refine_remove: "wl_refines (RemoveReq (coerce_id p)) u (delete_movie p u)"
proof -
  have "length (filter (\<lambda>m. \<not> movie_matches (to_number p) m) (movies u)) = length (movies u) \<longleftrightarrow>
        \<not> (\<exists>m\<in>set (movies u). movie_matches (to_number p) m)"
    by (metis filter_True length_filter_less less_irrefl)
  then show ?thesis
    by (auto simp: wl_refines_def wl_spec_def delete_movie_def Let_def list_ex_abs filter_abs)
qed

lemma refine_replace:
  assumes "ids_distinct u"
  shows "wl_refines (ReplaceReq (coerce_id p) (text_field b ''movietitle'') (text_field b ''language'')
                      (flag_field b ''watched'')) u (put_movie p b u)"
proof (cases "find_idx (movie_matches (to_number p)) (movies u)")
  case None
  then have "List.find (movie_matches (to_number p)) (movies u) = None"
    by (simp add: find_idx_find)
  with None show ?thesis
    by (simp add: wl_refines_def wl_spec_def put_movie_def find_abs)
next
  case (Some j)
  have f: "List.find (movie_matches (to_number p)) (movies u) = Some (movies u ! j)"
    using Some by (rule find_idx_Some_find)
  have upd: "map abs_movie ((movies u)[j := (movies u ! j)\<lparr>movietitle := t, language := l, watched := truthy w\<rparr>]) =
      map (\<lambda>x. if id_is (coerce_id p) x then x\<lparr>a_title := json_text t, a_language := json_text l, a_watched := truthy w\<rparr>
               else x) (map abs_movie (movies u))" for t l w
    by (rule abs_update [OF assms Some]) simp
  show ?thesis
    using Some f
    by (auto simp: wl_refines_def wl_spec_def put_movie_def find_abs text_field_def flag_field_def upd
                   Let_def split: option.split)
qed

lemma refine_patch:
  assumes "ids_distinct u"
  shows "wl_refines (PatchReq (coerce_id p) (text_field b ''movietitle'') (text_field b ''language'')
                      (flag_field b ''watched'')) u (patch_movie p b u)"
proof (cases "find_idx (movie_matches (to_number p)) (movies u)")
  case None
  then have "List.find (movie_matches (to_number p)) (movies u) = None"
    by (simp add: find_idx_find)
  with None show ?thesis
    by (simp add: wl_refines_def wl_spec_def patch_movie_def find_abs)
next
  case (Some j)
  define g :: "movie \<Rightarrow> movie" where "g m0 =
    (let m1 = (case body_field b ''movietitle'' of None \<Rightarrow> m0 | Some t \<Rightarrow> m0\<lparr>movietitle := t\<rparr>);
         m2 = (case body_field b ''language'' of None \<Rightarrow> m1 | Some l \<Rightarrow> m1\<lparr>language := l\<rparr>)
     in case body_field b ''watched'' of None \<Rightarrow> m2 | Some w \<Rightarrow> m2\<lparr>watched := truthy w\<rparr>)" for m0
  let ?F = "patch_fields (text_field b ''movietitle'') (text_field b ''language'') (flag_field b ''watched'')"
  have g: "abs_movie (g m) = ?F (abs_movie m)" for m
    by (simp add: g_def patch_fields_def text_field_def flag_field_def Let_def split: option.split)
  have code: "patch_movie p b u =
      (\<lparr>status = 200, body = MovieBody (g (movies u ! j))\<rparr>, u\<lparr>movies := (movies u)[j := g (movies u ! j)]\<rparr>)"
    using Some by (simp add: patch_movie_def g_def Let_def)
  have f: "List.find (movie_matches (to_number p)) (movies u) = Some (movies u ! j)"
    using Some by (rule find_idx_Some_find)
  show ?thesis
    using abs_update [OF assms Some, of g ?F] g
    by (simp add: wl_refines_def wl_spec_def code find_abs f)
qed

lemma refine_create:
  assumes "body_typed b" and "generateId n r \<notin> set (map movie_id (movies u))"
  shows "wl_refines (CreateReq (text_field b ''movietitle'') (text_field b ''language'') (flag_field b ''watched''))
           u (post_movie b n r u)"
  using assms
  by (auto simp: wl_refines_def wl_spec_def post_movie_def Let_def present_def text_field_def flag_field_def
                 body_typed_def field_typed_def json_string_def abs_movie_def json_text_def
           split: option.splits json.splits)

subsection \<open>The claims\<close>

text \<open>
  C21. Typing of the store: when a user's movies have string titles and languages, a
  request to any \<^verbatim>\<open>/movies\<close> route whose body gives strings for the title and the
  language and a boolean for \<^verbatim>\<open>watched\<close> (each where present) leaves them so. The
  handlers do not check the types themselves (\<open>patch_untyped_title\<close>).
\<close>

lemma movie_route_typed:
  assumes "user_typed u" and "body_typed b"
  shows "user_typed (snd (movie_route rt st b e u))"
  using assms post_movie_typed put_movie_typed patch_movie_typed delete_movie_typed
  by (simp add: movie_route_def split: route.splits http_method.splits)

lemma movie_route_typed_witness:
  "user_typed (snd (movie_route CreateMovie None demo_body \<lparr>now = 1000, random = 1/2\<rparr> demo_user))"
proof -
  have "user_typed demo_user" "body_typed demo_body"
    by (simp_all add: user_typed_def movie_typed_def json_string_def demo_user_def body_typed_def
                      field_typed_def json_boolean_def demo_body_def)
  then show ?thesis by (rule movie_route_typed)
qed

text \<open>
  C22. The handlers do not keep the store typed by themselves: for every user and
  every movie a PATCH addresses, a body whose \<^verbatim>\<open>movietitle\<close> is not a string
  (\<^verbatim>\<open>null\<close>, a number, an object) is accepted with 200, the value is stored as
  the title, and the user's movies are no longer typed.
\<close>

lemma patch_untyped_title:
  assumes "find_idx (movie_matches (to_number p)) (movies u) = Some j"
    and "body_field b ''movietitle'' = Some v" and "\<not> json_string v"
  shows "status (fst (patch_movie p b u)) = 200 \<and> movietitle (movies (snd (patch_movie p b u)) ! j) = v \<and>
         \<not> user_typed (snd (patch_movie p b u))"
proof -
  from find_idx_SomeD [OF assms(1)] have j: "j < length (movies u)" by simp
  have t: "movietitle (movies (snd (patch_movie p b u)) ! j) = v"
    using assms(1,2) j by (simp add: patch_movie_def Let_def split: option.split)
  moreover have "\<not> user_typed (snd (patch_movie p b u))"
  proof
    assume "user_typed (snd (patch_movie p b u))"
    moreover have "length (movies (snd (patch_movie p b u))) = length (movies u)"
      using assms(1) by (simp add: patch_movie_def Let_def)
    ultimately have "movie_typed (movies (snd (patch_movie p b u)) ! j)"
      using j by (simp add: user_typed_def list_all_length)
    with t assms(3) show False by (simp add: movie_typed_def)
  qed
  ultimately show ?thesis using assms(1) by (simp add: patch_movie_def Let_def)
qed

lemma patch_untyped_title_witness:
  "status (fst (patch_movie ''1005'' (Some (JObj [(''movietitle'', JNull)])) demo_user)) = 200 \<and>
   movietitle (movies (snd (patch_movie ''1005'' (Some (JObj [(''movietitle'', JNull)])) demo_user)) ! 0) = JNull \<and>
   \<not> user_typed (snd (patch_movie ''1005'' (Some (JObj [(''movietitle'', JNull)])) demo_user))"
  by (rule patch_untyped_title) (simp_all add: json_string_def)

text \<open>
  C8. Refinement of the Watchlist Store: for every request to a \<^verbatim>\<open>/movies\<close> route with
  a typed body, on a user whose movie ids are distinct, the handler's answer and
  updated list satisfy the specification of the operation (spec, section 4.4) on the
  abstract movies, provided, for a creation, that the generated id is not already in
  the list (the specification's demand on id generation, which the code does not check).
\<close>

theorem watchlist_refinement:
  assumes "abs_req rt st b = Some q" and "body_typed b" and "ids_distinct u"
    and "generateId (now e) (random e) \<notin> set (map movie_id (movies u))"
  shows "wl_refines q u (movie_route rt st b e u)"
  using assms refine_list refine_get refine_remove refine_replace refine_patch refine_create
  by (auto simp: abs_req_def movie_route_def Let_def split: route.splits http_method.splits)

theorem watchlist_refinement_witness:
  "wl_refines (ReplaceReq (Some 2042) (Some ''Heat'') (Some ''French'') (Some False)) demo_user
     (movie_route (MovieById PUT ''2042'') None
        (Some (JObj [(''movietitle'', JStr ''Heat''), (''language'', JStr ''French''), (''watched'', JBool False)]))
        \<lparr>now = 1000, random = 1/2\<rparr> demo_user)"
proof -
  let ?b = "Some (JObj [(''movietitle'', JStr ''Heat''), (''language'', JStr ''French''), (''watched'', JBool False)])"
  have "abs_req (MovieById PUT ''2042'') None ?b = Some (ReplaceReq (Some 2042) (Some ''Heat'') (Some ''French'') (Some False))"
    by (simp add: abs_req_def text_field_def flag_field_def json_text_def coerce_id_def number_eval)
  moreover have "body_typed ?b"
    by (simp add: body_typed_def field_typed_def json_string_def json_boolean_def)
  moreover have "ids_distinct demo_user"
    by (simp add: ids_distinct_def demo_user_def)
  moreover have "generateId (now \<lparr>now = 1000, random = 1/2\<rparr>) (random \<lparr>now = 1000, random = 1/2\<rparr>)
      \<notin> set (map movie_id (movies demo_user))"
    by (simp add: generateId_def demo_user_def)
  ultimately show ?thesis by (rule watchlist_refinement)
qed

end
