(* ===== verification/Config.thy ===== *)
theory Config
  imports Prelude
begin

text \<open>
  The process configuration (\<^verbatim>\<open>src/index.js\<close> lines 9--13). \<^verbatim>\<open>dotenv.config()\<close>
  reads a \<^verbatim>\<open>.env\<close> file into \<^verbatim>\<open>process.env\<close> without overriding a variable
  that is already set (the library's documented behaviour; it is not part of the
  repository). The port is \<^verbatim>\<open>process.env.PORT || 3000\<close>, the signing secret
  \<^verbatim>\<open>process.env.SECRET_KEY || 'fallback_secret_key'\<close>: an unset or empty variable
  gives the default. The environment is a map from names to strings.
\<close>

type_synonym environment = "string \<rightharpoonup> string"

text \<open>\<^verbatim>\<open>dotenv.config()\<close>: the file's entries under the ones the process already has.\<close>

definition dotenv_config :: "environment \<Rightarrow> environment \<Rightarrow> environment" where
  "dotenv_config file proc = file ++ proc"

text \<open>\<^verbatim>\<open>PORT\<close> is the variable's string, or the number 3000.\<close>

datatype port_value = PortString string | PortNumber nat

definition port_of :: "string option \<Rightarrow> port_value" where
  "port_of v =
     (case v of
        None \<Rightarrow> PortNumber 3000
      | Some s \<Rightarrow> if s = [] then PortNumber 3000 else PortString s)"

definition secret_key :: "string option \<Rightarrow> string" where
  "secret_key v =
     (case v of
        None \<Rightarrow> ''fallback_secret_key''
      | Some s \<Rightarrow> if s = [] then ''fallback_secret_key'' else s)"

record config =
  cfg_port :: port_value
  cfg_key :: string

definition configure :: "environment \<Rightarrow> config" where
  "configure env = \<lparr>cfg_port = port_of (env ''PORT''), cfg_key = secret_key (env ''SECRET_KEY'')\<rparr>"

section \<open>Properties of the configuration\<close>

lemma secret_key_unset:
  "v = None \<or> v = Some [] \<Longrightarrow> secret_key v = ''fallback_secret_key''"
  by (auto simp: secret_key_def)

text \<open>
  C40. Where the secret comes from: after \<^verbatim>\<open>dotenv.config()\<close>, the signing secret is
  the process's non-empty \<^verbatim>\<open>SECRET_KEY\<close> when there is one; otherwise the file's
  non-empty value when the process has none; and the fallback constant when neither
  gives a non-empty value (the process's empty value hides the file's). The port
  follows the same rule with the default 3000.
\<close>

lemma configure_dotenv:
  "cfg_key (configure (dotenv_config file proc)) =
     (case proc ''SECRET_KEY'' of
        Some s \<Rightarrow> if s = [] then ''fallback_secret_key'' else s
      | None \<Rightarrow> (case file ''SECRET_KEY'' of
                  Some s \<Rightarrow> if s = [] then ''fallback_secret_key'' else s
                | None \<Rightarrow> ''fallback_secret_key'')) \<and>
   cfg_port (configure (dotenv_config file proc)) =
     (case proc ''PORT'' of
        Some s \<Rightarrow> if s = [] then PortNumber 3000 else PortString s
      | None \<Rightarrow> (case file ''PORT'' of
                  Some s \<Rightarrow> if s = [] then PortNumber 3000 else PortString s
                | None \<Rightarrow> PortNumber 3000))"
  by (simp add: configure_def dotenv_config_def map_add_def secret_key_def port_of_def split: option.split)

end
