(* ===== verification/Guard_Spec.thy ===== *)
theory Guard_Spec
  imports Auth
begin

text \<open>
  The Access Guard against its contract (spec, section 4.3): extract the token of an
  \<^verbatim>\<open>Authorization: Bearer <token>\<close> header, absent giving \<open>MissingToken\<close> (401); verify
  it with the Token Service, a failure giving \<open>InvalidOrExpiredToken\<close> (403); resolve
  its id with \<open>findById\<close>, none giving \<open>UserNotFound\<close> (401); otherwise attach the
  user. The contract is stated over the verification and lookup functions it is given;
  the middleware refines it on every header of the documented form.
\<close>

datatype guard_error = MissingToken | InvalidOrExpiredToken | UserNotFound

definition guard_spec ::
  "string option \<Rightarrow> (string \<Rightarrow> jwt_error + claims) \<Rightarrow> (int \<Rightarrow> nat option) \<Rightarrow> guard_error + nat" where
  "guard_spec tok verify lookup =
     (case tok of
        None \<Rightarrow> Inl MissingToken
      | Some t \<Rightarrow>
          (case verify t of
             Inl _ \<Rightarrow> Inl InvalidOrExpiredToken
           | Inr c \<Rightarrow> (case lookup (claim_id c) of None \<Rightarrow> Inl UserNotFound | Some i \<Rightarrow> Inr i)))"

text \<open>The token of a header as the interface documents it: the text after \<^verbatim>\<open>Bearer \<close>.\<close>

definition spec_token :: "string option \<Rightarrow> string option" where
  "spec_token h =
     (case h of
        None \<Rightarrow> None
      | Some s \<Rightarrow> (case drop_prefix ''Bearer '' s of Some t \<Rightarrow> if t = [] then None else Some t | None \<Rightarrow> None))"

text \<open>A header that is absent, or \<^verbatim>\<open>Bearer \<close> followed by a token with no space.\<close>

definition bearer_form :: "string option \<Rightarrow> bool" where
  "bearer_form h =
     (case h of
        None \<Rightarrow> True
      | Some s \<Rightarrow> (case drop_prefix ''Bearer '' s of Some t \<Rightarrow> CHR '' '' \<notin> set t | None \<Rightarrow> False))"

text \<open>The middleware's outcome read as the contract's: each rejection response names its error.\<close>

definition abs_guard :: "response + nat \<Rightarrow> (guard_error + nat) option" where
  "abs_guard g =
     (case g of
        Inr i \<Rightarrow> Some (Inr i)
      | Inl r \<Rightarrow>
          if r = msg 401 ''Missing token'' then Some (Inl MissingToken)
          else if r = msg 403 ''Invalid or expired token'' then Some (Inl InvalidOrExpiredToken)
          else if r = msg 401 ''User not found'' then Some (Inl UserNotFound)
          else None)"

section \<open>Refinement\<close>

lemma bearer_form_Some:
  assumes "bearer_form (Some s)"
  obtains t where "s = ''Bearer '' @ t" and "CHR '' '' \<notin> set t" and "spec_token (Some s) = (if t = [] then None else Some t)"
proof -
  from assms obtain t where d: "drop_prefix ''Bearer '' s = Some t" and "CHR '' '' \<notin> set t"
    by (auto simp: bearer_form_def split: option.splits)
  moreover from d have "s = ''Bearer '' @ t" by (rule drop_prefix_Some)
  moreover from d have "spec_token (Some s) = (if t = [] then None else Some t)"
    by (simp add: spec_token_def)
  ultimately show ?thesis using that by blast
qed

text \<open>
  C14. Refinement of the Access Guard: for a request without an \<^verbatim>\<open>Authorization\<close>
  header or with \<^verbatim>\<open>Bearer \<close> followed by a token without spaces, the middleware
  answers exactly as the contract of spec section 4.3 prescribes, with the Token
  Service's verification and the Credential Store's \<^verbatim>\<open>findById\<close>: the same error
  (by its status and message) or the same user.
\<close>

lemma guard_refinement:
  assumes "bearer_form h"
  shows "abs_guard (authenticateToken k n h us) = Some (guard_spec (spec_token h) (jwt_verify k n) (\<lambda>i. find_by_id i us))"
proof (cases h)
  case None
  then show ?thesis by (simp add: authenticateToken_def abs_guard_def guard_spec_def spec_token_def)
next
  case (Some s)
  with assms obtain t where s: "s = ''Bearer '' @ t" and t: "CHR '' '' \<notin> set t"
    and tok: "spec_token (Some s) = (if t = [] then None else Some t)"
    by (auto elim: bearer_form_Some)
  have "bearer_token h = (if t = [] then None else Some t)"
    using bearer_token_single [of "''Bearer''" t] t by (simp add: Some s)
  with Some tok show ?thesis
    by (auto simp: authenticateToken_def abs_guard_def guard_spec_def msg_def split: sum.split option.split)
qed

lemma guard_refinement_witness:
  "abs_guard (authenticateToken ''fallback_secret_key'' 0 (Some ''Bearer abc'') users_init) =
   Some (guard_spec (spec_token (Some ''Bearer abc'')) (jwt_verify ''fallback_secret_key'' 0)
           (\<lambda>i. find_by_id i users_init))"
  by (rule guard_refinement) (simp add: bearer_form_def)

end
