(* ===== verification/Spec2Isabelle.thy ===== *)
theory Spec2Isabelle
  imports Watchlist_Spec Config Guard_Spec
begin

text \<open>
  \<^bold>\<open>A verification development for the Movie Watchlist API.\<close>

  The program is one Express application, \<^verbatim>\<open>src/index.js\<close>: a login route that
  checks a user name and password against a fixed in-memory table and issues a
  signed token valid for 24 hours; a middleware \<^verbatim>\<open>authenticateToken\<close> that reads
  the \<^verbatim>\<open>Authorization\<close> header, verifies the token and binds the request to the
  user it names; six protected \<^verbatim>\<open>/movies\<close> routes that list, create, read,
  replace, patch and delete the movies of that user; and a catch-all 404.

  \<^bold>\<open>Theories, leaf first.\<close>
  \<^item> \<open>Prelude\<close>: the collection \<open>model_simps\<close>, the JavaScript list operations the
    handlers use (\<^verbatim>\<open>find\<close>, the position of its match, \<^verbatim>\<open>split\<close>) and their facts.
  \<^item> \<open>Decimal\<close>: decimal printing and reading of integers, with their round trip.
  \<^item> \<open>Js_Value\<close>: JSON request bodies, JavaScript truthiness, \<^verbatim>\<open>undefined\<close> as
    \<^const>\<open>None\<close>, the destructuring \<^verbatim>\<open>const {k} = req.body || {}\<close>.
  \<^item> \<open>Js_Number\<close>: \<^verbatim>\<open>Number(string)\<close> on path parameters (runtime behaviour,
    modelled from the language definition).
  \<^item> \<open>Data_Model\<close>: the movie and user objects and the responses.
  \<^item> \<open>Credentials\<close>: the \<^verbatim>\<open>users\<close> table (lines 31--34) and its two lookups.
  \<^item> \<open>Watchlist\<close>: \<^verbatim>\<open>generateId\<close> and the six movie handlers (lines 39--42,
    98--185), each a function from the request data and the bound user to the
    response and the updated user.
  \<^item> \<open>Jwt\<close>: the \<^verbatim>\<open>jsonwebtoken\<close> library, which is not part of the repository and
    is modelled from its documented behaviour: \<open>jwt_sign\<close> builds a compact token
    \<open>header.payload.signature\<close> (parts in base 16 rather than base64url, which keeps the
    dot and space free alphabet that matters here), the payload the JSON text of
    \<open>{id, username, iat, exp}\<close>, the signature \<open>hs256\<close> an injective function of
    secret and message (the one property of HMAC-SHA256 the server relies on);
    \<open>jwt_verify\<close> decodes, checks the signature, then checks \<open>now div 1000 < exp\<close>.
    \<open>issue_claims\<close> is line 59: \<open>iat\<close> the clock in whole seconds, \<open>exp = iat + 86400\<close>.
  \<^item> \<open>Config\<close>: \<^verbatim>\<open>dotenv.config()\<close> (the \<^verbatim>\<open>.env\<close> file under the process
    environment, from the library's documentation), \<^verbatim>\<open>PORT || 3000\<close> and
    \<^verbatim>\<open>SECRET_KEY || 'fallback_secret_key'\<close> (lines 9--13) as the record \<open>config\<close>.
  \<^item> \<open>Auth\<close>: \<^verbatim>\<open>POST /login\<close> (\<open>login\<close>, lines 50--61) and the
    middleware \<^verbatim>\<open>authenticateToken\<close> (lines 67--82), which returns either the
    rejection response (\<open>Inl\<close>) or the position of the bound user in the table
    (\<open>Inr\<close>), the position being how \<^verbatim>\<open>req.user\<close> aliases the table entry.
  \<^item> \<open>Server\<close>: Express's routing (\<open>route_of\<close>: case-insensitive paths, one trailing
    slash, the \<^verbatim>\<open>:id\<close> parameter decoded by \<open>pct_decode\<close>, the
    \<^verbatim>\<open>decodeURIComponent\<close> of the language definition with its UTF-8 check, before
    the method is matched); the router \<open>route_request\<close> (lines 22--192) of one request
    against the state (the user table, record \<open>server_state\<close>), with the clock and
    random draw of the request as the record \<open>runtime\<close>; \<open>guarded\<close> runs the guard
    and writes the handler's updated user back at the bound position. The app
    \<open>handle\<close> puts the two middlewares of lines 19--20 in front of the router:
    \<^verbatim>\<open>express.json()\<close>, whose failures (\<open>body_error\<close>: invalid JSON 400, too large
    413, unsupported charset 415) reach Express's default error handler, and
    \<^verbatim>\<open>cors()\<close>, which answers \<^verbatim>\<open>OPTIONS\<close> with 204; \<^verbatim>\<open>HEAD\<close> is served by the
    \<^verbatim>\<open>GET\<close> routes with the body removed (\<open>head_strip\<close>). The server is the step relation
    \<open>server_step\<close>, its reachable states \<open>reachable\<close> (rule induction), and \<open>run\<close>
    handles a request sequence in order (Node handles requests one at a time; every
    handler is synchronous once the guard has run).
  \<^item> \<open>Watchlist_Spec\<close>: the specification's view of the store (spec, sections 3 and
    4.4): typed movies and bodies; an abstract store of movies with string fields and
    the six operations as a relation \<open>wl_spec\<close> between request, store before, result
    and store after, leaving open what the specification leaves open (the fresh id a
    creation picks; which error a replacement of a missing entry with an incomplete
    body gives); the abstraction of movies, requests and responses (\<open>abs_movie\<close>,
    \<open>abs_req\<close>, \<open>abs_res\<close>, which reads a movie answered with 201 as a creation and
    with 200 as a read or update, the path id as \<open>coerce_id\<close>) and the refinement relation
    \<open>wl_refines\<close>.
  \<^item> \<open>Guard_Spec\<close>: the Access Guard's contract (spec, section 4.3) as \<open>guard_spec\<close>
    over a token, a verification function and a lookup, the documented header form
    \<open>bearer_form\<close> and its token \<open>spec_token\<close>, and \<open>abs_guard\<close> reading a rejection
    response as the contract's error.

  \<^bold>\<open>What is proved.\<close>
  \<^item> End to end (this theory): a token from \<^verbatim>\<open>/login\<close> binds the user who logged in,
    and exactly until the expiry second; at the server level the login request
    changes nothing and the token works in every reachable state; in every reachable
    state each account can still log in and list its movies (liveness); with
    \<^verbatim>\<open>SECRET_KEY\<close> unset anyone can forge a token for any account.
  \<^item> Server: a user no request authenticates as is untouched by any request
    sequence; every movie in a user's list after a sequence was there before or was
    returned to one of that user's requests (provenance); a GET response carries only the bound user's movies; every
    reachable state holds the two start-up accounts unchanged; an
    \<^verbatim>\<open>:id\<close> that fails \<^verbatim>\<open>decodeURIComponent\<close> (bad hex or invalid UTF-8) gives 400
    before the guard runs; every answer (without body for \<^verbatim>\<open>HEAD\<close>) is either
    documented, with a documented status and every error a JSON message (predicate
    \<open>api_response\<close>), or one of Express's HTML error pages, and those occur exactly
    for a rejected body or a bad escape (predicate \<open>express_error\<close>).
  \<^item> Guard and login: each rejection (401 missing token, 403 for any token that is
    not three dot-separated parts, foreign
    secret or expired, 401 unknown user) on its inputs; that the guard binds the first
    user with the token's id; that the scheme word is never read; login's 200, 400,
    401 branches; the token round trip (sign, then verify before and after expiry);
    the middleware refines the guard contract on every header of the documented
    form (outside it, the scheme word is ignored).
  \<^item> Watchlist: every handler on every branch (success, 400, 404); the status
    filter; a DELETE makes the id unreadable; update and delete keep movie ids
    distinct, creation only when the generated id is fresh, which two creations a
    millisecond apart violate for every user and body when the second draw is 1/1000
    below the first; the bounds of a generated id; how the path id is read: the
    printed id finds its movie, a non-integer id finds none, and every spelling whose
    \<^verbatim>\<open>Number\<close> is the integer \<open>i\<close> reads, replaces, patches and deletes exactly the
    movies with id \<open>i\<close>.
  \<^item> Watchlist against its specification: the six handlers refine \<open>wl_spec\<close> for
    typed bodies on a user with distinct ids, given a fresh generated id; typed
    bodies keep the store typed, and a PATCH with a non-string title, on any user
    and any movie, is accepted and breaks it.
  \<^item> Configuration: where the secret and the port come from after
    \<^verbatim>\<open>dotenv.config()\<close>.
  \<^item> Support: the round trips \<open>to_number (show_int i) = NumVal i\<close> (\<^verbatim>\<open>Number\<close>
    of a printed integer) and \<open>parse_int (show_int i) = Some i\<close>, and the hex and
    JSON-escape round trips of the token parts.

  \<^bold>\<open>Bounds and fuel.\<close> None is needed: the program has no loop that can fail to
  end (its only iterations are \<^verbatim>\<open>find\<close>, \<^verbatim>\<open>filter\<close> and \<^verbatim>\<open>split\<close> over finite
  lists), and every function of the model is total by structural recursion
  (\<open>split_acc\<close>, the decoder \<open>pct_dec\<close> and \<open>utf8_well_formed\<close>, \<open>hex_decode\<close>, \<open>json_unescape\<close>, the digit readers,
  \<open>run\<close>) or by the \<open>fun\<close> package's measure (\<open>show_nat\<close>). Clock readings are
  unbounded naturals, as JavaScript numbers below \<open>2^53\<close> behave on them; ids are
  integers.

  \<^bold>\<open>Not modelled.\<close> Static file serving (\<^verbatim>\<open>express.static\<close>, line 18, and the
  \<^verbatim>\<open>sendFile\<close> of \<^verbatim>\<open>GET /\<close>, which is the payload \<open>LoginPage\<close>: a file in
  \<^verbatim>\<open>public/\<close> shadowing a route is not represented), the response headers CORS
  adds, the JSON parser itself (a request carries the parsed body or the parser's
  failure), and process start-up (\<^verbatim>\<open>app.listen\<close> and its log line): I/O with no
  state the routes read. \<^verbatim>\<open>Number\<close> keeps exact rationals instead of rounding to a
  double (ids are integers far below \<open>2^53\<close>, where the two agree). A decoded
  multi-byte character is kept as its UTF-8 bytes, so \<^verbatim>\<open>Number\<close> does not trim
  Unicode white space beyond ASCII around an id. \<open>jwt_verify\<close> models the options
  the code uses (HS256, \<open>exp\<close>); the library's other checks (\<open>nbf\<close>, audience,
  issuer) concern claims and options the code never sets.
\<close>

section \<open>Properties across components\<close>

text \<open>
  C1. Login followed by access: when \<^verbatim>\<open>/login\<close> answers 200 with a token for a name
  and password, in a table whose ids are distinct (as the fixed table's are), the
  table has an entry with that name and password, and the guard, given the token as
  \<^verbatim>\<open>Bearer\<close>, binds the request to exactly that entry as long as the clock in whole
  seconds is before the issue time in whole seconds plus 86400, and answers 403 from
  then on.
\<close>

theorem login_then_access:
  assumes "distinct (map user_id us)"
    and "login k t0 (cred_body un pw) us = \<lparr>status = 200, body = TokenBody tok\<rparr>"
  shows "\<exists>i<length us. username (us ! i) = un \<and> password (us ! i) = pw \<and>
           authenticateToken k t1 (bearer_header tok) us =
             (if t1 div 1000 < t0 div 1000 + 86400 then Inr i
              else Inl (msg 403 ''Invalid or expired token''))"
proof -
  from login_token_issued [OF assms(2)] obtain i where
    i: "i < length us" and
    cred: "body_field (cred_body un pw) ''username'' = Some (JStr (username (us ! i)))"
      "body_field (cred_body un pw) ''password'' = Some (JStr (password (us ! i)))" and
    tok: "tok = jwt_sign k (issue_claims t0 (user_id (us ! i)) (username (us ! i)))"
    by blast
  from cred have up: "username (us ! i) = un" "password (us ! i) = pw"
    by (simp_all add: cred_body_def)
  have "find_by_id (user_id (us ! i)) us = Some i"
    using assms(1) i(1) by (rule find_by_id_distinct)
  with tok i up show ?thesis by (auto simp: authenticate_issued)
qed

theorem login_then_access_witness:
  "\<exists>i<length users_init. username (users_init ! i) = ''alice'' \<and> password (users_init ! i) = ''123'' \<and>
     authenticateToken ''fallback_secret_key'' 5000
       (bearer_header (jwt_sign ''fallback_secret_key'' (issue_claims 1000 2 ''alice''))) users_init = Inr i"
proof -
  have h2: "login ''fallback_secret_key'' 1000 (cred_body ''alice'' ''123'') users_init =
      \<lparr>status = 200, body = TokenBody (jwt_sign ''fallback_secret_key'' (issue_claims 1000 2 ''alice''))\<rparr>"
    by (simp add: login_def cred_body_def find_by_credentials_def users_init_def)
  show ?thesis using login_then_access [OF users_init_ids_distinct h2, of 5000] by simp
qed

text \<open>
  C2. Login and access across the server's life: when the server, in a reachable
  state, answers a \<^verbatim>\<open>/login\<close> request with 200 and a token, the request changes
  nothing, and in every reachable state, earlier or later, the token given as
  \<^verbatim>\<open>Bearer\<close> binds a request to the account whose name the login body carried,
  until 86400 seconds after the login's clock (in whole seconds), and gives 403 after.
\<close>

theorem server_login_then_access:
  assumes "reachable k s" and "reachable k s2"
    and "route_of (req_method r) (req_path r) = LoginRoute"
    and "fst (handle k e r s) = \<lparr>status = 200, body = TokenBody tok\<rparr>"
  shows "snd (handle k e r s) = s \<and>
     (\<exists>i<length (users s2). body_field (req_body r) ''username'' = Some (JStr (username (users s2 ! i))) \<and>
        authenticateToken k t1 (bearer_header tok) (users s2) =
          (if t1 div 1000 < now e div 1000 + 86400 then Inr i
           else Inl (msg 403 ''Invalid or expired token'')))"
proof -
  have nb: "req_body_error r = None"
    using assms(4) handle_body_error_status [of r _ k e s] by (cases "req_body_error r") auto
  from assms(3,4) nb have "login k (now e) (req_body r) (users s) = \<lparr>status = 200, body = TokenBody tok\<rparr>"
    by (simp add: handle_login)
  from login_token_issued [OF this] obtain i where
    i: "i < length (users s)" and
    un: "body_field (req_body r) ''username'' = Some (JStr (username (users s ! i)))" and
    tok: "tok = jwt_sign k (issue_claims (now e) (user_id (users s ! i)) (username (users s ! i)))"
    by blast
  have keys: "map user_key (users s2) = map user_key (users s)"
    using assms(1,2) by (rule reachable_same_keys)
  then have len: "length (users s2) = length (users s)"
    by (metis length_map)
  from keys i have same: "user_key (users s2 ! i) = user_key (users s ! i)"
    by (metis len nth_map)
  then have "user_id (users s2 ! i) = user_id (users s ! i)" "username (users s2 ! i) = username (users s ! i)"
    by (simp_all add: user_key_def)
  moreover have "find_by_id (user_id (users s2 ! i)) (users s2) = Some i"
    using reachable_ids_distinct [OF assms(2)] i len by (intro find_by_id_distinct) simp_all
  ultimately show ?thesis
    using assms(3) nb i len un tok by (auto simp: handle_login authenticate_issued)
qed

theorem server_login_then_access_witness:
  "snd (handle ''fallback_secret_key'' \<lparr>now = 1000, random = 1/2\<rparr>
      \<lparr>req_method = POST, req_path = ''/login'', req_authorization = None,
       req_query_status = None, req_body = cred_body ''alice'' ''123'', req_body_error = None\<rparr> init_state) = init_state \<and>
   (\<exists>i<length (users init_state).
      body_field (cred_body ''alice'' ''123'') ''username'' = Some (JStr (username (users init_state ! i))) \<and>
      authenticateToken ''fallback_secret_key'' 5000 (bearer_header demo_token) (users init_state) = Inr i)"
proof -
  let ?r = "\<lparr>req_method = POST, req_path = ''/login'', req_authorization = None,
            req_query_status = None, req_body = cred_body ''alice'' ''123'', req_body_error = None\<rparr>"
  have rt: "route_of (req_method ?r) (req_path ?r) = LoginRoute"
    by (simp add: route_of_def path_segments_def seg_eq_def lower_ascii_def split_on_def)
  have "fst (handle ''fallback_secret_key'' \<lparr>now = 1000, random = 1/2\<rparr> ?r init_state) =
      \<lparr>status = 200, body = TokenBody demo_token\<rparr>"
    using rt by (simp add: handle_def route_request_def login_def cred_body_def find_by_credentials_def users_init_def
                           init_state_def demo_token_def)
  from server_login_then_access [OF reachable.start reachable.start rt this, of 5000] show ?thesis
    by simp
qed


text \<open>
  C3. Access stays possible: in every reachable state, each account of the start-up
  table can log in with its name and password and, with the token it receives, list
  exactly its current movies at any later moment within the token's 24 hours.
\<close>

theorem account_access_live:
  assumes "reachable k s" and "i < length users_init"
    and "now e' div 1000 < now e div 1000 + 86400"
  shows "\<exists>tok. fst (handle k e (login_request (username (users_init ! i)) (password (users_init ! i))) s) =
                 \<lparr>status = 200, body = TokenBody tok\<rparr> \<and>
               fst (handle k e' (list_request tok)
                      (snd (handle k e (login_request (username (users_init ! i)) (password (users_init ! i))) s))) =
                 \<lparr>status = 200, body = MovieList (movies (users s ! i))\<rparr>"
proof -
  let ?un = "username (users_init ! i)" and ?pw = "password (users_init ! i)"
  have keys: "map user_key (users s) = map user_key users_init"
    using assms(1) by (rule reachable_user_keys)
  then have len: "length (users s) = length users_init"
    by (metis length_map)
  from keys assms(2) have key_i: "user_key (users s ! i) = user_key (users_init ! i)"
    by (metis len nth_map)
  have "find_idx (\<lambda>u. username u = ?un \<and> password u = ?pw) (users s) =
        find_idx (\<lambda>u. username u = ?un \<and> password u = ?pw) users_init"
    using find_idx_same_keys [OF keys, of "\<lambda>(_, n, p). n = ?un \<and> p = ?pw"]
    by (simp add: user_key_def)
  with assms(2) have found: "find_idx (\<lambda>u. username u = ?un \<and> password u = ?pw) (users s) = Some i"
    by (simp add: users_init_credentials)
  have nonempty: "?un \<noteq> []" "?pw \<noteq> []"
    using assms(2) by (auto simp: users_init_def less_Suc_eq)
  let ?tok = "jwt_sign k (issue_claims (now e) (user_id (users s ! i)) (username (users s ! i)))"
  have login: "login k (now e) (cred_body ?un ?pw) (users s) = \<lparr>status = 200, body = TokenBody ?tok\<rparr>"
    using nonempty find_by_credentials_idx [OF found]
    by (simp add: login_def cred_body_def)
  have "find_by_id (user_id (users s ! i)) (users s) = Some i"
    using reachable_ids_distinct [OF assms(1)] assms(2) len by (intro find_by_id_distinct) simp_all
  then have guard: "authenticateToken k (now e') (bearer_header ?tok) (users s) = Inr i"
    using assms(3) by (simp add: authenticate_issued)
  have "handle k e (login_request ?un ?pw) s = (login k (now e) (req_body (login_request ?un ?pw)) (users s), s)"
    by (intro handle_login route_login_request) (simp add: login_request_def)
  with login have "handle k e (login_request ?un ?pw) s = (\<lparr>status = 200, body = TokenBody ?tok\<rparr>, s)"
    by (simp add: login_request_def)
  moreover have "handle k e' (list_request ?tok) s = guarded k e' (list_request ?tok) ListMovies s"
    by (intro handle_list route_list_request) (simp add: list_request_def)
  with guard have "fst (handle k e' (list_request ?tok) s) = \<lparr>status = 200, body = MovieList (movies (users s ! i))\<rparr>"
    by (simp add: guarded_def movie_route_def get_movies_def list_request_def)
  ultimately show ?thesis by auto
qed

theorem account_access_live_witness:
  "\<exists>tok. fst (handle ''fallback_secret_key'' \<lparr>now = 1000, random = 1/2\<rparr>
                 (login_request (username (users_init ! 1)) (password (users_init ! 1))) init_state) =
               \<lparr>status = 200, body = TokenBody tok\<rparr> \<and>
         fst (handle ''fallback_secret_key'' \<lparr>now = 5000, random = 1/2\<rparr> (list_request tok)
                (snd (handle ''fallback_secret_key'' \<lparr>now = 1000, random = 1/2\<rparr>
                   (login_request (username (users_init ! 1)) (password (users_init ! 1))) init_state))) =
               \<lparr>status = 200, body = MovieList (movies (users init_state ! 1))\<rparr>"
  by (rule account_access_live [OF reachable.start]) (simp_all add: users_init_def)


text \<open>
  C23. The fallback secret is a master key: when the configured environment has no
  \<^verbatim>\<open>SECRET_KEY\<close>, or an empty one, anyone can sign a token with the public constant
  \<^verbatim>\<open>fallback_secret_key\<close> for the id of any account, with any name and issue time,
  and in every reachable state the guard binds it to that account for 24 hours; no
  login is needed.
\<close>

theorem fallback_secret_forgery:
  assumes "env ''SECRET_KEY'' = None \<or> env ''SECRET_KEY'' = Some []"
    and "reachable (cfg_key (configure env)) s" and "i < length (users s)"
    and "t1 div 1000 < t0 div 1000 + 86400"
  shows "authenticateToken (cfg_key (configure env)) t1
           (bearer_header (jwt_sign ''fallback_secret_key'' (issue_claims t0 (user_id (users s ! i)) un)))
           (users s) = Inr i"
proof -
  have k: "cfg_key (configure env) = ''fallback_secret_key''"
    using assms(1) by (simp add: configure_def secret_key_unset)
  have "find_by_id (user_id (users s ! i)) (users s) = Some i"
    using reachable_ids_distinct [OF assms(2)] assms(3) by (rule find_by_id_distinct)
  with k assms(4) show ?thesis by (simp add: authenticate_issued)
qed

theorem fallback_secret_forgery_witness:
  "authenticateToken (cfg_key (configure Map.empty)) 5000
     (bearer_header (jwt_sign ''fallback_secret_key'' (issue_claims 1000 (user_id (users init_state ! 0)) ''mallory'')))
     (users init_state) = Inr 0"
proof -
  have "reachable (cfg_key (configure Map.empty)) init_state" by (rule reachable.start)
  moreover have "0 < length (users init_state)" by (simp add: init_state_def users_init_def)
  ultimately show ?thesis
    using fallback_secret_forgery [of Map.empty init_state 0 5000 1000 "''mallory''"] by simp
qed

end
